theory Spec2Isabelle
  imports Main
begin

section \<open>Python values\<close>

text \<open>
  A Python \<open>str\<close> is a sequence of Unicode code points; it is modelled as a list of
  natural numbers, one per code point. \<open>ustr\<close> turns an ASCII literal into such a text.
\<close>

type_synonym ustring = "nat list"

definition ustr :: "string \<Rightarrow> ustring" where
  "ustr s = map of_char s"

text \<open>
  The values \<open>json.loads\<close> builds. \<open>JNull\<close> is Python's \<open>None\<close>. A float is kept as
  the decimal number its lexeme denotes (\<open>Finite m e\<close> is \<open>m * 10 ^ e\<close>), before
  any rounding to a double. A \<open>dict\<close> is an association list with distinct keys, in
  insertion order.
\<close>

datatype pyfloat = Finite int int | Infinite bool | NaN

datatype json =
    JNull
  | JBool bool
  | JInt int
  | JFloat pyfloat
  | JStr ustring
  | JArr "json list"
  | JObj "(ustring \<times> json) list"

text \<open>
  The exceptions the modelled code can raise, and the outcome of a call: it returns a
  value, or an exception leaves it. The embedding is typed after the source's
  annotations (\<open>xp: int\<close>, ...); \<open>Untyped\<close> is the outcome of a call that would store a
  value of another type in an annotated field, which takes the program outside these
  types.
\<close>

datatype exn = AttributeError | KeyError | TypeError | IndexError | ApiError

datatype 'a outcome = Returned 'a | Raised exn | Untyped

text \<open>Indexing a list, \<open>xs[i]\<close>: a negative index counts from the end.\<close>

definition py_index :: "'a list \<Rightarrow> int \<Rightarrow> 'a outcome" where
  "py_index xs i =
     (if 0 \<le> i \<and> i < int (length xs) then Returned (xs ! nat i)
      else if - int (length xs) \<le> i \<and> i < 0 then Returned (xs ! nat (int (length xs) + i))
      else Raised IndexError)"

section \<open>Python library functions on text\<close>

text \<open>
  \<open>is_space\<close> is the whitespace of \<open>str.strip()\<close> and of \<open>\s\<close> in a \<open>str\<close> pattern of
  \<open>re\<close> (both are CPython's \<open>Py_UNICODE_ISSPACE\<close>): the code points U+0009 to U+000D,
  U+001C to U+0020, U+0085, U+00A0, U+1680, U+2000 to U+200A, U+2028, U+2029, U+202F,
  U+205F and U+3000.
\<close>

definition is_space :: "nat \<Rightarrow> bool" where
  "is_space c =
     ((9 \<le> c \<and> c \<le> 13) \<or> (28 \<le> c \<and> c \<le> 32) \<or> c = 133 \<or> c = 160 \<or> c = 5760 \<or>
      (8192 \<le> c \<and> c \<le> 8202) \<or> c = 8232 \<or> c = 8233 \<or> c = 8239 \<or> c = 8287 \<or>
      c = 12288)"

text \<open>\<open>str.strip()\<close> removes the whitespace at both ends.\<close>

definition drop_trailing_space :: "ustring \<Rightarrow> ustring" where
  "drop_trailing_space s = rev (dropWhile is_space (rev s))"

definition py_strip :: "ustring \<Rightarrow> ustring" where
  "py_strip s = drop_trailing_space (dropWhile is_space s)"

text \<open>
  \<open>re.sub(r'^```json\s*', '', s)\<close>: the pattern can only match at the start of \<open>s\<close>; it
  takes the marker and all the whitespace after it.
\<close>

definition sub_leading_fence :: "ustring \<Rightarrow> ustring" where
  "sub_leading_fence s =
     (if take 7 s = ustr ''```json'' then dropWhile is_space (drop 7 s) else s)"

text \<open>
  \<open>re.sub(r'\s*```$', '', s)\<close>. Without \<open>re.MULTILINE\<close>, \<open>$\<close> matches at the end of
  \<open>s\<close> and just before a newline that is the last character of \<open>s\<close>. So the pattern
  matches at most once: the three backquotes end \<open>s\<close>, or stand before its final
  newline, and the leftmost match starts at the whitespace run before them.
\<close>

definition ends_with :: "ustring \<Rightarrow> ustring \<Rightarrow> bool" where
  "ends_with s suffix = (length suffix \<le> length s \<and> drop (length s - length suffix) s = suffix)"

definition sub_trailing_fence :: "ustring \<Rightarrow> ustring" where
  "sub_trailing_fence s =
     (if ends_with s (ustr ''```'') then drop_trailing_space (take (length s - 3) s)
      else if ends_with s (ustr ''```'' @ [10])
        then drop_trailing_space (take (length s - 4) s) @ [10]
      else s)"

text \<open>
  The four lines with which \<open>generate_mission\<close> and \<open>validate_command\<close> both clean
  \<open>response.text\<close> before parsing it: \<open>strip\<close>, the two substitutions, \<open>strip\<close>.
\<close>

definition clean_response :: "ustring \<Rightarrow> ustring" where
  "clean_response text = py_strip (sub_trailing_fence (sub_leading_fence (py_strip text)))"

section \<open>json.loads\<close>

text \<open>
  \<open>json.loads\<close> on a \<open>str\<close>, as CPython's decoder reads it (default arguments: strict
  strings, \<open>NaN\<close>, \<open>Infinity\<close> and \<open>-Infinity\<close> accepted): \<open>None\<close> stands for
  \<open>json.JSONDecodeError\<close>. The text is cut into tokens by an automaton that reads one
  code point at a time, and the tokens are read by a second automaton with a stack of
  the open arrays and objects. The interpreter's resource limits (recursion depth,
  digits of an integer) are not modelled.
\<close>

subsection \<open>Tokens\<close>

text \<open>
  A token is a punctuation mark, a string (decoded), or an atom: the characters of a
  number or a literal name, up to the next whitespace, punctuation mark or quote.
  The lexer is between tokens (\<open>Scan\<close>), in an atom, in a string (with the decoded
  characters so far, last first, and whether the last one is a high surrogate written
  as a \<open>\u\<close> escape), after a backslash, in the four hex digits of a \<open>\u\<close> escape
  (digits read, value so far), or has met an error.
\<close>

datatype token = TPunct nat | TString ustring | TAtom ustring

datatype lexer =
    Scan
  | Atom ustring
  | Str ustring bool
  | Esc ustring bool
  | Uni ustring bool nat nat
  | Bad

definition is_json_ws :: "nat \<Rightarrow> bool" where
  "is_json_ws c = (c = 32 \<or> c = 9 \<or> c = 10 \<or> c = 13)"

definition is_punct :: "nat \<Rightarrow> bool" where
  "is_punct c = (c = 123 \<or> c = 125 \<or> c = 91 \<or> c = 93 \<or> c = 58 \<or> c = 44)"

definition is_digit :: "nat \<Rightarrow> bool" where
  "is_digit c = (48 \<le> c \<and> c \<le> 57)"

definition hex_value :: "nat \<Rightarrow> nat option" where
  "hex_value c =
     (if 48 \<le> c \<and> c \<le> 57 then Some (c - 48)
      else if 97 \<le> c \<and> c \<le> 102 then Some (c - 87)
      else if 65 \<le> c \<and> c \<le> 70 then Some (c - 55)
      else None)"

definition escape_value :: "nat \<Rightarrow> nat option" where
  "escape_value c =
     (if c = 34 then Some 34 else if c = 92 then Some 92 else if c = 47 then Some 47
      else if c = 98 then Some 8 else if c = 102 then Some 12 else if c = 110 then Some 10
      else if c = 114 then Some 13 else if c = 116 then Some 9 else None)"

definition is_high_surrogate :: "nat \<Rightarrow> bool" where
  "is_high_surrogate u = (55296 \<le> u \<and> u \<le> 56319)"

definition is_low_surrogate :: "nat \<Rightarrow> bool" where
  "is_low_surrogate u = (56320 \<le> u \<and> u \<le> 57343)"

definition end_unicode_escape :: "ustring \<Rightarrow> bool \<Rightarrow> nat \<Rightarrow> lexer" where
  "end_unicode_escape s hi u =
     (case s of
        h # s' \<Rightarrow>
          if hi \<and> is_low_surrogate u
          then Str ((65536 + (h - 55296) * 1024 + (u - 56320)) # s') False
          else Str (u # s) (is_high_surrogate u)
      | [] \<Rightarrow> Str (u # s) (is_high_surrogate u))"

fun lex_step :: "token list \<times> lexer \<Rightarrow> nat \<Rightarrow> token list \<times> lexer" where
  "lex_step (toks, Scan) c =
     (if is_json_ws c then (toks, Scan)
      else if is_punct c then (TPunct c # toks, Scan)
      else if c = 34 then (toks, Str [] False)
      else (toks, Atom [c]))"
| "lex_step (toks, Atom a) c =
     (if is_json_ws c then (TAtom (rev a) # toks, Scan)
      else if is_punct c then (TPunct c # TAtom (rev a) # toks, Scan)
      else if c = 34 then (TAtom (rev a) # toks, Str [] False)
      else (toks, Atom (c # a)))"
| "lex_step (toks, Str s hi) c =
     (if c = 34 then (TString (rev s) # toks, Scan)
      else if c = 92 then (toks, Esc s hi)
      else if c < 32 then (toks, Bad)
      else (toks, Str (c # s) False))"
| "lex_step (toks, Esc s hi) c =
     (if c = 117 then (toks, Uni s hi 0 0)
      else case escape_value c of
        Some e \<Rightarrow> (toks, Str (e # s) False)
      | None \<Rightarrow> (toks, Bad))"
| "lex_step (toks, Uni s hi n u) c =
     (case hex_value c of
        None \<Rightarrow> (toks, Bad)
      | Some h \<Rightarrow>
          if n = 3 then (toks, end_unicode_escape s hi (16 * u + h))
          else (toks, Uni s hi (n + 1) (16 * u + h)))"
| "lex_step (toks, Bad) c = (toks, Bad)"

fun lex_end :: "token list \<times> lexer \<Rightarrow> token list option" where
  "lex_end (toks, Scan) = Some (rev toks)"
| "lex_end (toks, Atom a) = Some (rev (TAtom (rev a) # toks))"
| "lex_end (toks, _) = None"

definition lex :: "ustring \<Rightarrow> token list option" where
  "lex s = lex_end (foldl lex_step ([], Scan) s)"

subsection \<open>Numbers and literal names\<close>

text \<open>
  A number is \<open>-?(0|[1-9][0-9]*)(\.[0-9]+)?([eE][-+]?[0-9]+)?\<close>; with neither fraction
  nor exponent it is an \<open>int\<close>, else a \<open>float\<close>.
\<close>

definition digits_value :: "ustring \<Rightarrow> nat" where
  "digits_value ds = foldl (\<lambda>a d. 10 * a + (d - 48)) 0 ds"

definition number_value :: "ustring \<Rightarrow> json option" where
  "number_value a =
     (let neg = (take 1 a = [45]);
          r = (if neg then drop 1 a else a);
          ip = takeWhile is_digit r;
          r1 = dropWhile is_digit r;
          has_frac = (take 1 r1 = [46]);
          fp = (if has_frac then takeWhile is_digit (drop 1 r1) else []);
          r2 = (if has_frac then dropWhile is_digit (drop 1 r1) else r1);
          has_exp = (take 1 r2 = [101] \<or> take 1 r2 = [69]);
          r3 = (if has_exp then drop 1 r2 else r2);
          eneg = (take 1 r3 = [45]);
          r4 = (if has_exp \<and> (eneg \<or> take 1 r3 = [43]) then drop 1 r3 else r3);
          ep = (if has_exp then takeWhile is_digit r4 else []);
          r5 = (if has_exp then dropWhile is_digit r4 else r4);
          sgn = (\<lambda>n::nat. if neg then - int n else int n)
      in if ip = [] \<or> (hd ip = 48 \<and> ip \<noteq> [48]) \<or> (has_frac \<and> fp = []) \<or>
            (has_exp \<and> ep = []) \<or> r5 \<noteq> []
         then None
         else if has_frac \<or> has_exp
         then Some (JFloat (Finite (sgn (digits_value (ip @ fp)))
                 ((if eneg then - int (digits_value ep) else int (digits_value ep))
                    - int (length fp))))
         else Some (JInt (sgn (digits_value ip))))"

definition atom_value :: "ustring \<Rightarrow> json option" where
  "atom_value a =
     (if a = ustr ''true'' then Some (JBool True)
      else if a = ustr ''false'' then Some (JBool False)
      else if a = ustr ''null'' then Some JNull
      else if a = ustr ''NaN'' then Some (JFloat NaN)
      else if a = ustr ''Infinity'' then Some (JFloat (Infinite True))
      else if a = ustr ''-Infinity'' then Some (JFloat (Infinite False))
      else number_value a)"

subsection \<open>Values\<close>

text \<open>
  \<open>dict_set\<close> is \<open>d[k] = v\<close>: a key that is already there keeps its place and takes the
  new value. A frame of the stack is an open array (its elements so far, last first),
  an open object, or an open object with the key whose value is being read.
\<close>

fun dict_set :: "(ustring \<times> json) list \<Rightarrow> ustring \<Rightarrow> json \<Rightarrow> (ustring \<times> json) list" where
  "dict_set [] k v = [(k, v)]"
| "dict_set ((k', v') # ps) k v =
     (if k' = k then (k, v) # ps else (k', v') # dict_set ps k v)"

datatype frame =
    FArr "json list"
  | FObj "(ustring \<times> json) list"
  | FKey "(ustring \<times> json) list" ustring

datatype expect =
    PValue
  | PFirst
  | PKeyFirst
  | PKey
  | PColon ustring
  | PAfter
  | PDone json
  | PError

fun feed_value :: "json \<Rightarrow> frame list \<Rightarrow> frame list \<times> expect" where
  "feed_value v [] = ([], PDone v)"
| "feed_value v (FArr es # st) = (FArr (v # es) # st, PAfter)"
| "feed_value v (FKey ps k # st) = (FObj (dict_set ps k v) # st, PAfter)"
| "feed_value v (FObj ps # st) = (st, PError)"

fun start_value :: "frame list \<Rightarrow> token \<Rightarrow> frame list \<times> expect" where
  "start_value st (TString s) = feed_value (JStr s) st"
| "start_value st (TAtom a) =
     (case atom_value a of None \<Rightarrow> (st, PError) | Some v \<Rightarrow> feed_value v st)"
| "start_value st (TPunct c) =
     (if c = 91 then (FArr [] # st, PFirst)
      else if c = 123 then (FObj [] # st, PKeyFirst)
      else (st, PError))"

fun parse_step :: "frame list \<times> expect \<Rightarrow> token \<Rightarrow> frame list \<times> expect" where
  "parse_step (st, PValue) t = start_value st t"
| "parse_step (FArr es # st, PFirst) (TPunct c) =
     (if c = 93 then feed_value (JArr (rev es)) st else start_value (FArr es # st) (TPunct c))"
| "parse_step (st, PFirst) t = start_value st t"
| "parse_step (FObj ps # st, PKeyFirst) (TPunct c) =
     (if c = 125 then feed_value (JObj ps) st else (st, PError))"
| "parse_step (st, PKeyFirst) (TString k) = (st, PColon k)"
| "parse_step (st, PKey) (TString k) = (st, PColon k)"
| "parse_step (FObj ps # st, PColon k) (TPunct c) =
     (if c = 58 then (FKey ps k # st, PValue) else (st, PError))"
| "parse_step (FArr es # st, PAfter) (TPunct c) =
     (if c = 44 then (FArr es # st, PValue)
      else if c = 93 then feed_value (JArr (rev es)) st
      else (st, PError))"
| "parse_step (FObj ps # st, PAfter) (TPunct c) =
     (if c = 44 then (FObj ps # st, PKey)
      else if c = 125 then feed_value (JObj ps) st
      else (st, PError))"
| "parse_step (st, _) t = (st, PError)"

fun parse_end :: "frame list \<times> expect \<Rightarrow> json option" where
  "parse_end ([], PDone v) = Some v"
| "parse_end _ = None"

definition parse :: "token list \<Rightarrow> json option" where
  "parse toks = parse_end (foldl parse_step ([], PValue) toks)"

definition json_loads :: "ustring \<Rightarrow> json option" where
  "json_loads s = (case lex s of None \<Rightarrow> None | Some toks \<Rightarrow> parse toks)"

section \<open>config/constants.py\<close>

definition XP_FIRST_TRY :: int where "XP_FIRST_TRY = 100"
definition XP_ONE_HINT :: int where "XP_ONE_HINT = 50"
definition XP_TWO_HINTS :: int where "XP_TWO_HINTS = 25"

text \<open>The upper bound of a row of the level table: an integer, or \<open>float('inf')\<close>.\<close>

datatype bound = Upto int | Inf

fun le_bound :: "int \<Rightarrow> bound \<Rightarrow> bool" where
  "le_bound x (Upto m) = (x \<le> m)"
| "le_bound x Inf = True"

definition LEVEL_THRESHOLDS :: "(int \<times> int \<times> bound) list" where
  "LEVEL_THRESHOLDS =
     [(1, 0, Upto 299),
      (2, 300, Upto 699),
      (3, 700, Upto 1199),
      (4, 1200, Upto 1999),
      (5, 2000, Inf)]"

definition FUNDAMENTAL_TOPICS :: "ustring list" where
  "FUNDAMENTAL_TOPICS =
     [ustr ''Host Discovery'',
      ustr ''Port Scanning'',
      ustr ''Service/OS Detection'',
      ustr ''Timing/Performance'',
      ustr ''Evasion'',
      ustr ''Output'',
      ustr ''Scripting'']"

definition ADVANCED_TOPICS :: "ustring list" where
  "ADVANCED_TOPICS =
     [ustr ''Firewall/IDS Bypass Advanced'',
      ustr ''IPv6 Scanning'',
      ustr ''NSE Script Categories'',
      ustr ''Aggressive & Combo Scanning'',
      ustr ''Protocol-Specific Enumeration'']"

definition ALL_TOPICS :: "ustring list" where
  "ALL_TOPICS = FUNDAMENTAL_TOPICS @ ADVANCED_TOPICS"

section \<open>core/progress\_manager.py: the level table\<close>

text \<open>
  \<open>calculate_level\<close> walks the rows of \<open>LEVEL_THRESHOLDS\<close> in the dictionary's order and
  returns the level of the first row that holds \<open>xp\<close>; when no row does, it returns 5.
\<close>

fun calculate_level_rows :: "(int \<times> int \<times> bound) list \<Rightarrow> int \<Rightarrow> int" where
  "calculate_level_rows [] xp = 5"
| "calculate_level_rows ((level, min_xp, max_xp) # rows) xp =
     (if min_xp \<le> xp \<and> le_bound xp max_xp then level else calculate_level_rows rows xp)"

definition calculate_level :: "int \<Rightarrow> int" where
  "calculate_level xp = calculate_level_rows LEVEL_THRESHOLDS xp"

text \<open>\<open>row_holds l xp\<close>: the table has a row for level \<open>l\<close>, and \<open>xp\<close> lies in it.\<close>

definition row_holds :: "int \<Rightarrow> int \<Rightarrow> bool" where
  "row_holds l xp =
     (case map_of LEVEL_THRESHOLDS l of
        None \<Rightarrow> False
      | Some (min_xp, max_xp) \<Rightarrow> min_xp \<le> xp \<and> le_bound xp max_xp)"

section \<open>core/mission\_generator.py: the topic rotation\<close>

text \<open>
  The AI model answers each call of \<open>generate_content\<close> with a text, or the call (or
  reading \<open>response.text\<close>) raises. The model object is the script of its answers,
  by call number, and the number of calls made so far.
\<close>

datatype ai_reply = Reply ustring | Fails

record ai_model =
  answers :: "nat \<Rightarrow> ai_reply"
  calls :: nat

record MissionGenerator =
  mg_model :: "ai_model option"
  mg_level :: int
  mg_last_topic_index :: int

definition topics_of_level :: "int \<Rightarrow> ustring list" where
  "topics_of_level level = (if level \<le> 3 then FUNDAMENTAL_TOPICS else ALL_TOPICS)"

definition get_next_topic :: "MissionGenerator \<Rightarrow> ustring outcome \<times> MissionGenerator" where
  "get_next_topic self =
     (let topics = topics_of_level (mg_level self);
          self' = self\<lparr>mg_last_topic_index :=
                    (mg_last_topic_index self + 1) mod int (length topics)\<rparr>
      in (py_index topics (mg_last_topic_index self'), self'))"

text \<open>\<open>k\<close> calls of \<open>get_next_topic\<close> in a row, keeping the generator.\<close>

fun next_topic_times :: "nat \<Rightarrow> MissionGenerator \<Rightarrow> MissionGenerator" where
  "next_topic_times 0 self = self"
| "next_topic_times (Suc k) self = next_topic_times k (snd (get_next_topic self))"

section \<open>core/mission\_generator.py: generate\_mission\<close>

text \<open>\<open>self.model.generate_content(prompt)\<close>, then \<open>response.text\<close>.\<close>

definition generate_content :: "ai_model \<Rightarrow> ai_reply \<times> ai_model" where
  "generate_content m = (answers m (calls m), m\<lparr>calls := calls m + 1\<rparr>)"

text \<open>
  \<open>generate_mission\<close> returns the parsed response, or \<open>None\<close> (\<open>JNull\<close>), or an exception
  leaves it; the generator it leaves behind is the second component. The prompt
  (topic and difficulty) only matters through what the model answers, and the answers
  are arbitrary here. A response that does not parse (\<open>json.JSONDecodeError\<close>) is
  retried while \<open>retry < 2\<close>, then \<open>None\<close> is returned; any other exception is retried
  while \<open>retry < 2\<close>, then raised again. Each attempt starts from the top, so it takes
  the next topic. The pauses (\<open>time.sleep\<close>) and the log lines are left out.
\<close>

function generate_mission :: "MissionGenerator \<Rightarrow> int \<Rightarrow> json outcome \<times> MissionGenerator" where
  "generate_mission self retry =
     (case mg_model self of
        None \<Rightarrow> (Returned JNull, self)
      | Some m \<Rightarrow>
          (case get_next_topic self of
             (Raised e, self1) \<Rightarrow> (Raised e, self1)
           | (Untyped, self1) \<Rightarrow> (Untyped, self1)
           | (Returned topic, self1) \<Rightarrow>
               (case generate_content m of
                  (Fails, m') \<Rightarrow>
                    if retry < 2
                    then generate_mission (self1\<lparr>mg_model := Some m'\<rparr>) (retry + 1)
                    else (Raised ApiError, self1\<lparr>mg_model := Some m'\<rparr>)
                | (Reply response_text, m') \<Rightarrow>
                    (case json_loads (clean_response response_text) of
                       Some mission \<Rightarrow> (Returned mission, self1\<lparr>mg_model := Some m'\<rparr>)
                     | None \<Rightarrow>
                         if retry < 2
                         then generate_mission (self1\<lparr>mg_model := Some m'\<rparr>) (retry + 1)
                         else (Returned JNull, self1\<lparr>mg_model := Some m'\<rparr>)))))"
  by pat_completeness auto
termination
  by (relation "measure (\<lambda>(self, retry). nat (2 - retry))") auto

declare generate_mission.simps [simp del]

section \<open>core/command\_validator.py: validate\_command\<close>

record CommandValidator =
  cv_model :: "ai_model option"

text \<open>
  What \<open>not x\<close> tests: \<open>None\<close>, \<open>False\<close>, zero and the empty containers are false. A
  float literal is zero when it rounds to \<open>0.0\<close>, that is when its magnitude is at most
  \<open>2 ^ -1075\<close>, half the least positive double (a tie rounds to even, here to zero).
\<close>

fun truthy :: "json \<Rightarrow> bool" where
  "truthy JNull = False"
| "truthy (JBool b) = b"
| "truthy (JInt n) = (n \<noteq> 0)"
| "truthy (JFloat (Finite m e)) =
     (if 0 \<le> e then m \<noteq> 0 else 10 ^ nat (- e) < \<bar>m\<bar> * 2 ^ 1075)"
| "truthy (JFloat (Infinite b)) = True"
| "truthy (JFloat NaN) = True"
| "truthy (JStr s) = (s \<noteq> [])"
| "truthy (JArr xs) = (xs \<noteq> [])"
| "truthy (JObj kvs) = (kvs \<noteq> [])"

text \<open>\<open>x[key]\<close> with a string key: only a \<open>dict\<close> can answer.\<close>

fun subscript :: "json \<Rightarrow> ustring \<Rightarrow> json outcome" where
  "subscript (JObj kvs) k = (case map_of kvs k of None \<Rightarrow> Raised KeyError | Some v \<Rightarrow> Returned v)"
| "subscript v k = Raised TypeError"

text \<open>The values an f-string reads, in the order it reads them.\<close>

fun subscripts :: "json \<Rightarrow> ustring list \<Rightarrow> json list outcome" where
  "subscripts v [] = Returned []"
| "subscripts v (k # ks) =
     (case subscript v k of
        Returned x \<Rightarrow>
          (case subscripts v ks of
             Returned xs \<Rightarrow> Returned (x # xs)
           | Raised e \<Rightarrow> Raised e
           | Untyped \<Rightarrow> Untyped)
      | Raised e \<Rightarrow> Raised e
      | Untyped \<Rightarrow> Untyped)"

definition MISSION_KEYS :: "ustring list" where
  "MISSION_KEYS =
     [ustr ''title'', ustr ''description'', ustr ''target_ip'', ustr ''difficulty'',
      ustr ''topic_category'']"

definition VALIDATION_KEYS :: "ustring list" where
  "VALIDATION_KEYS = [ustr ''correct'', ustr ''feedback'', ustr ''simulated_output'']"

text \<open>
  \<open>validate_command\<close>: the prompt reads the five fields of the mission before the
  \<open>try\<close>, so a mission without one of them raises there. A response that does not
  parse is retried while \<open>retry < 1\<close>, then \<open>None\<close> is returned; any other exception is
  retried while \<open>retry < 1\<close>, then raised again.
\<close>

function validate_command ::
  "CommandValidator \<Rightarrow> ustring \<Rightarrow> json \<Rightarrow> int \<Rightarrow> json outcome \<times> CommandValidator" where
  "validate_command self command current_mission retry =
     (case cv_model self of
        None \<Rightarrow> (Returned JNull, self)
      | Some m \<Rightarrow>
          if \<not> truthy current_mission then (Returned JNull, self)
          else
            (case subscripts current_mission MISSION_KEYS of
               Raised e \<Rightarrow> (Raised e, self)
             | Untyped \<Rightarrow> (Untyped, self)
             | Returned prompt_values \<Rightarrow>
                 (case generate_content m of
                    (Fails, m') \<Rightarrow>
                      if retry < 1
                      then validate_command (self\<lparr>cv_model := Some m'\<rparr>) command
                             current_mission (retry + 1)
                      else (Raised ApiError, self\<lparr>cv_model := Some m'\<rparr>)
                  | (Reply response_text, m') \<Rightarrow>
                      (case json_loads (clean_response response_text) of
                         Some result \<Rightarrow> (Returned result, self\<lparr>cv_model := Some m'\<rparr>)
                       | None \<Rightarrow>
                           if retry < 1
                           then validate_command (self\<lparr>cv_model := Some m'\<rparr>) command
                                  current_mission (retry + 1)
                           else (Returned JNull, self\<lparr>cv_model := Some m'\<rparr>)))))"
  by pat_completeness auto
termination
  by (relation "measure (\<lambda>(self, command, current_mission, retry). nat (1 - retry))") auto

declare validate_command.simps [simp del]


section \<open>core/progress\_manager.py: loading and saving\<close>

text \<open>
  \<open>ProgressData\<close>, with its four \<open>int\<close> fields. The four fields of a
  \<open>ProgressManager\<close> are the same, so its state is a \<open>ProgressData\<close> too.
\<close>

record ProgressData =
  xp :: int
  level :: int
  last_topic_index :: int
  missions_completed :: int

definition ProgressManager_init :: ProgressData where
  "ProgressManager_init = \<lparr>xp = 0, level = 1, last_topic_index = - 1, missions_completed = 0\<rparr>"

text \<open>
  What is at the path \<open>PROGRESS_FILE\<close>: nothing, something that cannot be opened (\<open>open\<close>
  raises \<open>IOError\<close>), or a file with a text.
\<close>

datatype file_state = Absent | Denied | Content ustring

text \<open>\<open>str(i)\<close> for an \<open>int\<close>, which is also how \<open>json.dump\<close> writes it.\<close>

fun digits_of :: "nat \<Rightarrow> ustring" where
  "digits_of n = (if n < 10 then [48 + n] else digits_of (n div 10) @ [48 + n mod 10])"

declare digits_of.simps [simp del]

definition py_str_int :: "int \<Rightarrow> ustring" where
  "py_str_int i = (if i < 0 then 45 # digits_of (nat (- i)) else digits_of (nat i))"

text \<open>
  \<open>json.dump(data, f, indent=2)\<close> for a \<open>ProgressData\<close>, whose keys are in the order in
  which \<open>NmapDojoApp.save_progress\<close> builds the dictionary.
\<close>

definition json_dump_progress :: "ProgressData \<Rightarrow> ustring" where
  \<open>json_dump_progress data =
     ustr ''{\<newline>  "xp": '' @ py_str_int (xp data) @
     ustr '',\<newline>  "level": '' @ py_str_int (level data) @
     ustr '',\<newline>  "last_topic_index": '' @ py_str_int (last_topic_index data) @
     ustr '',\<newline>  "missions_completed": '' @ py_str_int (missions_completed data) @
     ustr ''\<newline>}''\<close>

text \<open>\<open>d.get(k, default)\<close>, and the \<open>int\<close> that a value is, if it is one.\<close>

definition dict_get :: "(ustring \<times> json) list \<Rightarrow> ustring \<Rightarrow> json \<Rightarrow> json" where
  "dict_get kvs k d = (case map_of kvs k of None \<Rightarrow> d | Some v \<Rightarrow> v)"

fun as_int :: "json \<Rightarrow> int option" where
  "as_int (JInt n) = Some n"
| "as_int v = None"

text \<open>
  \<open>load_progress\<close> returns the dictionary of the manager's four fields, which is also the
  manager's state from then on, so one record stands for both. A missing file is skipped;
  \<open>IOError\<close> and \<open>json.JSONDecodeError\<close> are caught, and leave the fields as they were.
  A document that is not an object has no \<open>get\<close>: the \<open>AttributeError\<close> is not caught.
\<close>

definition load_progress :: "file_state \<Rightarrow> ProgressData \<Rightarrow> ProgressData outcome" where
  "load_progress f self =
     (case f of
        Absent \<Rightarrow> Returned self
      | Denied \<Rightarrow> Returned self
      | Content t \<Rightarrow>
          (case json_loads t of
             None \<Rightarrow> Returned self
           | Some (JObj kvs) \<Rightarrow>
               (case (as_int (dict_get kvs (ustr ''xp'') (JInt 0)),
                      as_int (dict_get kvs (ustr ''level'') (JInt 1)),
                      as_int (dict_get kvs (ustr ''last_topic_index'') (JInt (- 1))),
                      as_int (dict_get kvs (ustr ''missions_completed'') (JInt 0))) of
                  (Some a, Some b, Some c, Some d) \<Rightarrow>
                    Returned \<lparr>xp = a, level = b, last_topic_index = c, missions_completed = d\<rparr>
                | _ \<Rightarrow> Untyped)
           | Some _ \<Rightarrow> Raised AttributeError))"

text \<open>\<open>save_progress\<close> writes the file; an \<open>IOError\<close> is caught and logged.\<close>

definition save_progress :: "ProgressData \<Rightarrow> file_state \<Rightarrow> file_state" where
  "save_progress data f = (case f of Denied \<Rightarrow> Denied | _ \<Rightarrow> Content (json_dump_progress data))"

text \<open>A character that continues an atom.\<close>

definition atom_char :: "nat \<Rightarrow> bool" where
  "atom_char c = (\<not> is_json_ws c \<and> \<not> is_punct c \<and> c \<noteq> 34)"

section \<open>ui/app.py: the progress and the validation result\<close>

text \<open>The colours of \<open>config/constants.py\<close> that the terminal lines use.\<close>

definition COLOR_SUCCESS :: ustring where "COLOR_SUCCESS = ustr ''#00ff00''"
definition COLOR_ERROR :: ustring where "COLOR_ERROR = ustr ''#ff5555''"
definition COLOR_TEXT_WHITE :: ustring where "COLOR_TEXT_WHITE = ustr ''#ffffff''"
definition COLOR_TEXT_YELLOW :: ustring where "COLOR_TEXT_YELLOW = ustr ''#ffff00''"
definition COLOR_TEXT_CYAN :: ustring where "COLOR_TEXT_CYAN = ustr ''#00ffff''"

text \<open>\<open>s.split('\n')\<close>, for a separator of one character.\<close>

fun split_on :: "nat \<Rightarrow> ustring \<Rightarrow> ustring list" where
  "split_on sep [] = [[]]"
| "split_on sep (c # cs) =
     (if c = sep then [] # split_on sep cs
      else case split_on sep cs of
             piece # pieces \<Rightarrow> (c # piece) # pieces
           | [] \<Rightarrow> [[c]])"

text \<open>
  What an f-string writes for a value: the string itself, an \<open>int\<close> in decimal, \<open>True\<close>,
  \<open>False\<close>, \<open>None\<close>. The other values (a float, a list, a dictionary) are not
  modelled; a call that formats one ends \<open>Untyped\<close>.
\<close>

fun py_format :: "json \<Rightarrow> ustring option" where
  "py_format (JStr s) = Some s"
| "py_format (JInt i) = Some (py_str_int i)"
| "py_format (JBool b) = Some (if b then ustr ''True'' else ustr ''False'')"
| "py_format JNull = Some (ustr ''None'')"
| "py_format v = None"

text \<open>
  The attributes of \<open>NmapDojoApp\<close> that the methods below read or write: the four
  progress fields, the \<open>ProgressManager\<close>, the hints used, the completion flag, and of
  the widgets the terminal (its lines, each with its colour), the two labels, the
  visibility of the explain button and the text of the snack bar. A widget is \<open>None\<close>
  until \<open>setup_ui\<close> has made it. \<open>progress_file\<close> is what is at the path \<open>PROGRESS_FILE\<close>.
\<close>

record NmapDojoApp = ProgressData +
  progress_manager :: ProgressData
  progress_file :: file_state
  hints_used :: int
  mission_completed :: bool
  terminal_output :: "(ustring \<times> ustring) list option"
  xp_text :: "ustring option"
  level_text :: "ustring option"
  explain_btn :: "bool option"
  snack_bar :: "ustring option"

text \<open>
  The application as \<open>__init__\<close> has it when it calls \<open>load_progress\<close>: the defaults, and
  no widget yet.
\<close>

definition NmapDojoApp_init :: "file_state \<Rightarrow> NmapDojoApp" where
  "NmapDojoApp_init f =
     \<lparr>xp = 0, level = 1, last_topic_index = - 1, missions_completed = 0,
      progress_manager = ProgressManager_init, progress_file = f,
      hints_used = 0, mission_completed = False,
      terminal_output = None, xp_text = None, level_text = None, explain_btn = None,
      snack_bar = None\<rparr>"

text \<open>
  \<open>NmapDojoApp.load_progress\<close> and \<open>NmapDojoApp.save_progress\<close> (\<open>app_\<close> tells them
  from the manager's).
\<close>

definition app_load_progress :: "NmapDojoApp \<Rightarrow> unit outcome \<times> NmapDojoApp" where
  "app_load_progress self =
     (case load_progress (progress_file self) (progress_manager self) of
        Returned data \<Rightarrow>
          (Returned (),
           self\<lparr>progress_manager := data, xp := xp data, level := level data,
                last_topic_index := last_topic_index data,
                missions_completed := missions_completed data\<rparr>)
      | Raised e \<Rightarrow> (Raised e, self)
      | Untyped \<Rightarrow> (Untyped, self))"

definition app_save_progress :: "NmapDojoApp \<Rightarrow> NmapDojoApp" where
  "app_save_progress self =
     (let data = \<lparr>xp = xp self, level = level self, last_topic_index = last_topic_index self,
                  missions_completed = missions_completed self\<rparr>
      in self\<lparr>progress_file := save_progress data (progress_file self)\<rparr>)"

definition add_terminal_line :: "ustring \<Rightarrow> ustring \<Rightarrow> NmapDojoApp \<Rightarrow> NmapDojoApp" where
  "add_terminal_line line color self =
     (case terminal_output self of
        None \<Rightarrow> self
      | Some lines \<Rightarrow> self\<lparr>terminal_output := Some (lines @ [(line, color)])\<rparr>)"

text \<open>
  The two symbols of the level-up lines are written in the source as four code points
  each; they are kept as they are.
\<close>

definition show_level_up_notification :: "int \<Rightarrow> int \<Rightarrow> NmapDojoApp \<Rightarrow> NmapDojoApp" where
  "show_level_up_notification old_level new_level self =
     (let banner = [240, 376, 381, 8240] @ ustr '' LEVEL UP! You are now Level '' @
                     py_str_int new_level @ ustr ''!'';
          s1 = add_terminal_line [] COLOR_TEXT_WHITE self;
          s2 = add_terminal_line (replicate 50 61) COLOR_TEXT_YELLOW s1;
          s3 = add_terminal_line (ustr ''  '' @ banner) COLOR_TEXT_YELLOW s2;
          s4 = (if new_level \<ge> 4
                then add_terminal_line
                       (ustr ''  '' @ [240, 376, 8221, 8220] @
                        ustr '' Advanced Red Team missions unlocked!'') COLOR_SUCCESS s3
                else s3);
          s5 = add_terminal_line (replicate 50 61) COLOR_TEXT_YELLOW s4;
          s6 = add_terminal_line [] COLOR_TEXT_WHITE s5
      in s6\<lparr>snack_bar := Some banner\<rparr>)"

text \<open>The amount \<open>award_xp\<close> adds, by the hints used.\<close>

definition xp_gained_for :: "int \<Rightarrow> int" where
  "xp_gained_for hints =
     (if hints = 0 then XP_FIRST_TRY else if hints = 1 then XP_ONE_HINT else XP_TWO_HINTS)"

definition award_xp :: "NmapDojoApp \<Rightarrow> int \<times> NmapDojoApp" where
  "award_xp self =
     (let old_level = level self;
          xp_gained = xp_gained_for (hints_used self);
          s1 = self\<lparr>xp := xp self + xp_gained\<rparr>;
          s2 = s1\<lparr>level := calculate_level (xp s1)\<rparr>;
          s3 = (case xp_text s2 of
                  None \<Rightarrow> s2
                | Some _ \<Rightarrow> s2\<lparr>xp_text := Some (ustr ''XP: '' @ py_str_int (xp s2))\<rparr>);
          s4 = (case level_text s3 of
                  None \<Rightarrow> s3
                | Some _ \<Rightarrow> s3\<lparr>level_text := Some (ustr ''Level: '' @ py_str_int (level s3))\<rparr>);
          s5 = (if level s4 > old_level
                then show_level_up_notification old_level (level s4) s4
                else s4)
      in (xp s5, s5))"

text \<open>The callback \<open>set_explain_visible\<close> of \<open>NmapDojoApp.process_validation_result\<close>.\<close>

definition set_explain_visible :: "bool \<Rightarrow> NmapDojoApp \<Rightarrow> NmapDojoApp" where
  "set_explain_visible visible self =
     (case explain_btn self of
        None \<Rightarrow> self
      | Some _ \<Rightarrow> self\<lparr>explain_btn := Some visible\<rparr>)"

text \<open>
  \<open>CommandValidator.process_validation_result\<close>, run with the callbacks that
  \<open>NmapDojoApp.process_validation_result\<close> gives it. \<open>result.get\<close> needs a dictionary, and
  \<open>simulated_output.split\<close> a string: another value raises \<open>AttributeError\<close>.
  \<open>update_page\<close> changes none of the modelled attributes.
\<close>

definition process_validation_result ::
  "json \<Rightarrow> ustring \<Rightarrow> NmapDojoApp \<Rightarrow> unit outcome \<times> NmapDojoApp" where
  "process_validation_result result command self =
     (case result of
        JObj kvs \<Rightarrow>
          if truthy (dict_get kvs (ustr ''correct'') (JBool False)) then
            (let s1 = add_terminal_line [] COLOR_TEXT_WHITE self in
             case dict_get kvs (ustr ''simulated_output'') (JStr []) of
               JStr simulated_output \<Rightarrow>
                 (let s2 = foldl (\<lambda>s line. add_terminal_line line COLOR_SUCCESS s) s1
                             (split_on 10 simulated_output);
                      s3 = add_terminal_line [] COLOR_TEXT_WHITE s2
                  in case py_format (dict_get kvs (ustr ''feedback'') (JStr (ustr ''Correct!''))) of
                       None \<Rightarrow> (Untyped, s3)
                     | Some feedback \<Rightarrow>
                         (let s4 = add_terminal_line ([91, 10003, 93, 32] @ feedback)
                                     COLOR_SUCCESS s3;
                              (xp_total, s5) = award_xp s4;
                              s6 = s5\<lparr>mission_completed := True\<rparr>;
                              s7 = s6\<lparr>missions_completed := missions_completed s6 + 1\<rparr>;
                              s8 = app_save_progress s7;
                              s9 = add_terminal_line
                                     (ustr ''[+] XP Awarded! Total: '' @ py_str_int xp_total)
                                     COLOR_TEXT_CYAN s8
                          in (Returned (), set_explain_visible False s9)))
             | _ \<Rightarrow> (Raised AttributeError, s1))
          else
            (let s1 = add_terminal_line [] COLOR_TEXT_WHITE self in
             case py_format (dict_get kvs (ustr ''feedback'') (JStr (ustr ''Incorrect.''))) of
               None \<Rightarrow> (Untyped, s1)
             | Some feedback \<Rightarrow>
                 (let s2 = add_terminal_line ([91, 10007, 93, 32] @ feedback) COLOR_ERROR s1;
                      s3 = add_terminal_line (ustr ''[!] Scan failed. Try again or get a hint.'')
                             COLOR_TEXT_YELLOW s2
                  in (Returned (), set_explain_visible True s3)))
      | _ \<Rightarrow> (Raised AttributeError, self))"

text \<open>
  The operations that read or write the progress record once the application has
  started, and a run of them.
\<close>

datatype operation = AwardXp | SaveProgress | ProcessValidationResult json ustring

fun perform :: "NmapDojoApp \<Rightarrow> operation \<Rightarrow> NmapDojoApp" where
  "perform self AwardXp = snd (award_xp self)"
| "perform self SaveProgress = app_save_progress self"
| "perform self (ProcessValidationResult result command) =
     snd (process_validation_result result command self)"

section \<open>Example responses\<close>

text \<open>
  A model that always gives the same answer, and one that gives a first answer twice
  and a second one from then on.
\<close>

definition always :: "ustring \<Rightarrow> nat \<Rightarrow> ai_reply" where
  "always text n = Reply text"


definition example_mission :: json where
  "example_mission =
     JObj [(ustr ''title'', JStr (ustr ''Operation Dawn'')),
           (ustr ''description'', JStr (ustr ''Find the live hosts'')),
           (ustr ''target_ip'', JStr (ustr ''10.0.0.5'')),
           (ustr ''difficulty'', JStr (ustr ''Easy'')),
           (ustr ''topic_category'', JStr (ustr ''Host Discovery''))]"

definition example_mission_text :: ustring where
  \<open>example_mission_text =
     ustr ''{"title": "Operation Dawn", "description": "Find the live hosts", "target_ip": "10.0.0.5", "difficulty": "Easy", "topic_category": "Host Discovery"}''\<close>

definition example_validation :: json where
  "example_validation =
     JObj [(ustr ''correct'', JBool False),
           (ustr ''feedback'', JStr (ustr ''Use -sn'')),
           (ustr ''simulated_output'', JStr [])]"

definition example_validation_text :: ustring where
  \<open>example_validation_text =
     ustr ''{"correct": false, "feedback": "Use -sn", "simulated_output": ""}''\<close>


definition partial_mission_text :: ustring where
  \<open>partial_mission_text = ustr ''{"title": "Operation Dawn"}''\<close>

definition example_app :: NmapDojoApp where
  "example_app =
     (NmapDojoApp_init Absent)
       \<lparr>xp := 280, hints_used := 1, terminal_output := Some [],
        xp_text := Some (ustr ''XP: 280''), level_text := Some (ustr ''Level: 1''),
        explain_btn := Some False\<rparr>"

definition negative_progress_text :: ustring where
  \<open>negative_progress_text = ustr ''{"xp": -5}''\<close>

text \<open>The \<open>int\<close> stored under a key, or a default.\<close>

definition int_field :: "(ustring \<times> json) list \<Rightarrow> ustring \<Rightarrow> int \<Rightarrow> int" where
  "int_field kvs k d = (case map_of kvs k of Some (JInt i) \<Rightarrow> i | _ \<Rightarrow> d)"

section \<open>The level table\<close>

lemma length_FUNDAMENTAL_TOPICS: "length FUNDAMENTAL_TOPICS = 7"
  by (simp add: FUNDAMENTAL_TOPICS_def)

lemma length_ALL_TOPICS: "length ALL_TOPICS = 12"
  by (simp add: ALL_TOPICS_def FUNDAMENTAL_TOPICS_def ADVANCED_TOPICS_def)

lemma length_topics_of_level:
  "length (topics_of_level l) = (if l \<le> 3 then 7 else 12)"
  by (simp add: topics_of_level_def length_FUNDAMENTAL_TOPICS length_ALL_TOPICS)

lemma calculate_level_cases:
  "calculate_level n =
     (if 0 \<le> n \<and> n \<le> 299 then 1
      else if 300 \<le> n \<and> n \<le> 699 then 2
      else if 700 \<le> n \<and> n \<le> 1199 then 3
      else if 1200 \<le> n \<and> n \<le> 1999 then 4
      else 5)"
  by (simp add: calculate_level_def LEVEL_THRESHOLDS_def)

lemma row_holds_cases:
  "row_holds l n =
     ((l = 1 \<and> 0 \<le> n \<and> n \<le> 299) \<or> (l = 2 \<and> 300 \<le> n \<and> n \<le> 699) \<or>
      (l = 3 \<and> 700 \<le> n \<and> n \<le> 1199) \<or> (l = 4 \<and> 1200 \<le> n \<and> n \<le> 1999) \<or>
      (l = 5 \<and> 2000 \<le> n))"
  by (auto simp add: row_holds_def LEVEL_THRESHOLDS_def)

text \<open>
  Claim C4. For every non-negative integer \<open>xp\<close>, \<open>calculate_level n\<close> is the one level
  among 1..5 whose row of the five-row table holds \<open>xp\<close>: 1 for 0-299, 2 for 300-699,
  3 for 700-1199, 4 for 1200-1999 and 5 from 2000 on.
\<close>

theorem calculate_level_table:
  "0 \<le> n \<Longrightarrow>
     calculate_level n \<in> {1, 2, 3, 4, 5} \<and>
     row_holds (calculate_level n) n \<and>
     (\<forall>l. row_holds l n \<longrightarrow> l = calculate_level n) \<and>
     (calculate_level n = 1) = (n \<le> 299) \<and>
     (calculate_level n = 2) = (300 \<le> n \<and> n \<le> 699) \<and>
     (calculate_level n = 3) = (700 \<le> n \<and> n \<le> 1199) \<and>
     (calculate_level n = 4) = (1200 \<le> n \<and> n \<le> 1999) \<and>
     (calculate_level n = 5) = (2000 \<le> n) \<and>
     length LEVEL_THRESHOLDS = 5"
  by (auto simp add: calculate_level_cases row_holds_cases LEVEL_THRESHOLDS_def)

theorem calculate_level_table_witness:
  "(0::int) \<le> 699 \<and> calculate_level 699 = 2 \<and> row_holds 2 699 \<and> \<not> row_holds 3 699"
proof -
  have c: "calculate_level 699 = 2"
    by (simp add: calculate_level_cases)
  have "(0::int) \<le> 699"
    by simp
  from calculate_level_table [OF this] show ?thesis
    unfolding c by auto
qed

section \<open>The topic rotation\<close>

lemma get_next_topic_index:
  "mg_last_topic_index (snd (get_next_topic self)) =
     (mg_last_topic_index self + 1) mod int (length (topics_of_level (mg_level self)))"
  by (simp add: get_next_topic_def Let_def)

lemma get_next_topic_level: "mg_level (snd (get_next_topic self)) = mg_level self"
  by (simp add: get_next_topic_def Let_def)

lemma next_topic_times_level: "mg_level (next_topic_times k self) = mg_level self"
  by (induction k arbitrary: self) (simp_all add: get_next_topic_level)

lemma next_topic_times_index:
  "mg_last_topic_index (next_topic_times k self) =
     (if k = 0 then mg_last_topic_index self
      else (mg_last_topic_index self + int k) mod int (length (topics_of_level (mg_level self))))"
proof (induction k arbitrary: self)
  case 0
  show ?case by simp
next
  case (Suc k)
  let ?n = "int (length (topics_of_level (mg_level self)))"
  let ?s = "snd (get_next_topic self)"
  have step: "mg_last_topic_index ?s = (mg_last_topic_index self + 1) mod ?n"
    by (rule get_next_topic_index)
  have "mg_last_topic_index (next_topic_times (Suc k) self) =
          mg_last_topic_index (next_topic_times k ?s)"
    by simp
  also have "\<dots> = (if k = 0 then mg_last_topic_index ?s
                   else (mg_last_topic_index ?s + int k) mod ?n)"
    by (simp add: Suc.IH get_next_topic_level)
  also have "\<dots> = (mg_last_topic_index self + int (Suc k)) mod ?n"
    by (simp add: step mod_simps algebra_simps)
  finally show ?case by simp
qed

text \<open>
  Claim C5. For every starting integer \<open>last_topic_index\<close> and every level,
  \<open>get_next_topic\<close> sets the index to \<open>(last_topic_index + 1) mod n\<close>, where \<open>n\<close> is the
  length of the active topic list (the 7 fundamental topics up to level 3, the 12
  topics of \<open>ALL_TOPICS\<close> from level 4), returns the topic at the new index, and the
  new index lies in \<open>0 .. n - 1\<close>; \<open>k\<close> calls in a row at a fixed level move the index
  \<open>k\<close> places round the list, so \<open>n\<close> calls from an index of the list come back to it.
\<close>

theorem get_next_topic_round_robin:
  fixes self :: MissionGenerator
  defines "topics \<equiv> topics_of_level (mg_level self)"
  defines "self' \<equiv> snd (get_next_topic self)"
  shows "length topics = (if mg_level self \<le> 3 then 7 else 12) \<and>
    topics = (if mg_level self \<le> 3 then FUNDAMENTAL_TOPICS else ALL_TOPICS) \<and>
    mg_last_topic_index self' = (mg_last_topic_index self + 1) mod int (length topics) \<and>
    0 \<le> mg_last_topic_index self' \<and> mg_last_topic_index self' \<le> int (length topics) - 1 \<and>
    fst (get_next_topic self) = Returned (topics ! nat (mg_last_topic_index self')) \<and>
    mg_level self' = mg_level self \<and> mg_model self' = mg_model self \<and>
    (0 < k \<longrightarrow> mg_last_topic_index (next_topic_times k self) =
       (mg_last_topic_index self + int k) mod int (length topics)) \<and>
    (0 \<le> mg_last_topic_index self \<and> mg_last_topic_index self < int (length topics) \<longrightarrow>
       mg_last_topic_index (next_topic_times (length topics) self) = mg_last_topic_index self)"
proof -
  have len: "length topics = (if mg_level self \<le> 3 then 7 else 12)"
    unfolding topics_def by (rule length_topics_of_level)
  then have pos: "0 < int (length topics)"
    by (simp split: if_splits)
  have tops: "topics = (if mg_level self \<le> 3 then FUNDAMENTAL_TOPICS else ALL_TOPICS)"
    by (simp add: topics_def topics_of_level_def)
  have idx: "mg_last_topic_index self' = (mg_last_topic_index self + 1) mod int (length topics)"
    unfolding self'_def topics_def by (rule get_next_topic_index)
  have range: "0 \<le> mg_last_topic_index self' \<and> mg_last_topic_index self' \<le> int (length topics) - 1"
    using pos by (simp add: idx)
  have "fst (get_next_topic self) = py_index topics (mg_last_topic_index self')"
    by (simp add: get_next_topic_def Let_def topics_def self'_def)
  then have ret: "fst (get_next_topic self) = Returned (topics ! nat (mg_last_topic_index self'))"
    using range by (simp add: py_index_def)
  have frame: "mg_level self' = mg_level self \<and> mg_model self' = mg_model self"
    by (simp add: self'_def get_next_topic_def Let_def)
  have many: "0 < k \<longrightarrow> mg_last_topic_index (next_topic_times k self) =
          (mg_last_topic_index self + int k) mod int (length topics)"
    by (simp add: next_topic_times_index topics_def)
  have cycle: "0 \<le> mg_last_topic_index self \<and> mg_last_topic_index self < int (length topics) \<longrightarrow>
          mg_last_topic_index (next_topic_times (length topics) self) = mg_last_topic_index self"
    using pos by (simp add: next_topic_times_index topics_def)
  from len tops idx range ret frame many cycle show ?thesis
    by blast
qed

theorem get_next_topic_round_robin_witness:
  "fst (get_next_topic \<lparr>mg_model = None, mg_level = 1, mg_last_topic_index = 6\<rparr>)
     = Returned (ustr ''Host Discovery'') \<and>
   mg_last_topic_index
     (next_topic_times 7 \<lparr>mg_model = None, mg_level = 1, mg_last_topic_index = 6\<rparr>) = 6 \<and>
   mg_last_topic_index
     (next_topic_times 3 \<lparr>mg_model = None, mg_level = 4, mg_last_topic_index = - 1\<rparr>) = 2"
proof -
  let ?a = "\<lparr>mg_model = None, mg_level = 1, mg_last_topic_index = 6\<rparr>"
  let ?b = "\<lparr>mg_model = None, mg_level = 4, mg_last_topic_index = - 1\<rparr>"
  note a = get_next_topic_round_robin [of ?a 7]
  note b = get_next_topic_round_robin [of ?b 3]
  have 1: "fst (get_next_topic ?a) = Returned (ustr ''Host Discovery'')"
    using a by (simp add: topics_of_level_def FUNDAMENTAL_TOPICS_def)
  have 2: "mg_last_topic_index (next_topic_times 7 ?a) = 6"
    using a by (simp add: length_topics_of_level)
  have 3: "mg_last_topic_index (next_topic_times 3 ?b) = 2"
    using b by (simp add: length_topics_of_level)
  from 1 2 3 show ?thesis by simp
qed

section \<open>Cleaning a response\<close>

lemma is_space_simps:
  "\<not> is_space 96" "\<not> is_space 123" "\<not> is_space 125" "is_space 10"
  by (simp_all add: is_space_def)

lemma dropWhile_spaces_append:
  "\<forall>c\<in>set w. is_space c \<Longrightarrow> dropWhile is_space (w @ s) = dropWhile is_space s"
  by (induction w) simp_all

lemma dropWhile_space_id:
  "s \<noteq> [] \<Longrightarrow> \<not> is_space (hd s) \<Longrightarrow> dropWhile is_space s = s"
  by (cases s) simp_all

lemma drop_trailing_space_append_spaces:
  "\<forall>c\<in>set w. is_space c \<Longrightarrow> drop_trailing_space (s @ w) = drop_trailing_space s"
  by (simp add: drop_trailing_space_def dropWhile_spaces_append)

lemma drop_trailing_space_id:
  "s \<noteq> [] \<Longrightarrow> \<not> is_space (last s) \<Longrightarrow> drop_trailing_space s = s"
  by (cases s rule: rev_cases) (simp_all add: drop_trailing_space_def)

lemma py_strip_core:
  assumes "\<forall>c\<in>set w1. is_space c" "\<forall>c\<in>set w4. is_space c"
    and "s \<noteq> []" "\<not> is_space (hd s)" "\<not> is_space (last s)"
  shows "py_strip (w1 @ s @ w4) = s"
proof -
  have "dropWhile is_space (w1 @ s @ w4) = s @ w4"
    using assms by (simp add: dropWhile_spaces_append dropWhile_space_id hd_append)
  then show ?thesis
    using assms by (simp add: py_strip_def drop_trailing_space_append_spaces drop_trailing_space_id)
qed


text \<open>The two substitutions, with the marker there and without it.\<close>

lemma sub_leading_fence_present:
  assumes "\<forall>c\<in>set w. is_space c" "s \<noteq> []" "\<not> is_space (hd s)"
  shows "sub_leading_fence (ustr ''```json'' @ w @ s) = s"
proof -
  have "length (ustr ''```json'') = 7"
    by (simp add: ustr_def)
  then show ?thesis
    using assms by (simp add: sub_leading_fence_def dropWhile_spaces_append dropWhile_space_id)
qed

lemma sub_leading_fence_absent:
  assumes "s \<noteq> []" "hd s \<noteq> 96"
  shows "sub_leading_fence s = s"
  using assms by (cases s) (auto simp add: sub_leading_fence_def ustr_def)

lemma ends_with_append: "ends_with (s @ t) t"
  by (simp add: ends_with_def)

lemma ends_with_last: "ends_with s t \<Longrightarrow> t \<noteq> [] \<Longrightarrow> last s = last t"
  by (metis append_take_drop_id ends_with_def last_appendR)

lemma sub_trailing_fence_present:
  assumes "\<forall>c\<in>set w. is_space c" "s \<noteq> []" "\<not> is_space (last s)"
  shows "sub_trailing_fence (s @ w @ ustr ''```'') = s"
proof -
  have len: "length (ustr ''```'') = 3"
    by (simp add: ustr_def)
  have "ends_with (s @ w @ ustr ''```'') (ustr ''```'')"
    using ends_with_append [of "s @ w" "ustr ''```''"] by simp
  moreover have "take (length (s @ w @ ustr ''```'') - 3) (s @ w @ ustr ''```'') = s @ w"
    by (simp add: len)
  ultimately show ?thesis
    using assms
    by (simp add: sub_trailing_fence_def drop_trailing_space_append_spaces drop_trailing_space_id)
qed

lemma sub_trailing_fence_absent:
  assumes "s \<noteq> []" "last s = 125"
  shows "sub_trailing_fence s = s"
proof -
  have "\<not> ends_with s (ustr ''```'')"
    using ends_with_last [of s "ustr ''```''"] assms by (auto simp add: ustr_def)
  moreover have "\<not> ends_with s (ustr ''```'' @ [10])"
    using ends_with_last [of s "ustr ''```'' @ [10]"] assms by (auto simp add: ustr_def)
  ultimately show ?thesis
    by (simp add: sub_trailing_fence_def)
qed


lemma clean_response_fenced:
  assumes ws: "\<forall>c\<in>set (w1 @ w2 @ w3 @ w4). is_space c"
    and body: "body \<noteq> []" "hd body = 123" "last body = 125"
  shows "clean_response
           (w1 @ (if lead then ustr ''```json'' @ w2 else []) @ body @
            (if trail then w3 @ ustr ''```'' else []) @ w4) = body"
proof -
  let ?tail = "if trail then w3 @ ustr ''```'' else []"
  let ?core = "(if lead then ustr ''```json'' @ w2 else []) @ body @ ?tail"
  have w: "\<forall>c\<in>set w1. is_space c" "\<forall>c\<in>set w2. is_space c"
    "\<forall>c\<in>set w3. is_space c" "\<forall>c\<in>set w4. is_space c"
    using ws by auto
  have b: "\<not> is_space (hd body)" "\<not> is_space (last body)" "hd body \<noteq> 96"
    using body by (simp_all add: is_space_def)
  have core: "?core \<noteq> []" "\<not> is_space (hd ?core)" "\<not> is_space (last ?core)"
    using body b by (auto simp add: ustr_def is_space_def hd_append)
  have 1: "py_strip (w1 @ ?core @ w4) = ?core"
    using w(1) w(4) core by (rule py_strip_core)
  have tail: "body @ ?tail \<noteq> []" "\<not> is_space (hd (body @ ?tail))" "hd (body @ ?tail) \<noteq> 96"
    using body b by (simp_all add: hd_append)
  have 2: "sub_leading_fence ?core = body @ ?tail"
  proof (cases lead)
    case True
    then show ?thesis
      using sub_leading_fence_present [OF w(2) tail(1) tail(2)] by simp
  next
    case False
    then show ?thesis
      using sub_leading_fence_absent [OF tail(1) tail(3)] by simp
  qed
  have 3: "sub_trailing_fence (body @ ?tail) = body"
  proof (cases trail)
    case True
    then show ?thesis
      using sub_trailing_fence_present [OF w(3) body(1) b(2)] by simp
  next
    case False
    then show ?thesis
      using sub_trailing_fence_absent [OF body(1) body(3)] by simp
  qed
  have 4: "py_strip body = body"
    using py_strip_core [of "[]" "[]" body] body b by simp
  have "clean_response (w1 @ ?core @ w4) = body"
    unfolding clean_response_def 1 2 3 4 ..
  then show ?thesis
    by simp
qed

section \<open>Evaluating the parser and the cleaning on a given text\<close>

lemmas json_eval = json_loads_def lex_def parse_def ustr_def is_json_ws_def is_punct_def
  is_digit_def hex_value_def escape_value_def is_high_surrogate_def is_low_surrogate_def
  end_unicode_escape_def atom_value_def number_value_def digits_value_def Let_def

lemmas clean_eval = clean_response_def py_strip_def drop_trailing_space_def sub_leading_fence_def
  sub_trailing_fence_def ends_with_def is_space_def ustr_def

lemma json_loads_example_mission: "json_loads example_mission_text = Some example_mission"
  by (simp add: example_mission_text_def example_mission_def json_eval)

lemma json_loads_example_validation:
  "json_loads example_validation_text = Some example_validation"
  by (simp add: example_validation_text_def example_validation_def json_eval)

lemma example_mission_text_ends:
  "example_mission_text \<noteq> []" "hd example_mission_text = 123" "last example_mission_text = 125"
  by (simp_all add: example_mission_text_def ustr_def)

lemma example_validation_text_ends:
  "example_validation_text \<noteq> []" "hd example_validation_text = 123"
  "last example_validation_text = 125"
  by (simp_all add: example_validation_text_def ustr_def)

lemma example_mission_prompt:
  "truthy example_mission"
  "\<exists>vs. subscripts example_mission MISSION_KEYS = Returned vs"
  by (simp_all add: example_mission_def MISSION_KEYS_def ustr_def)



lemma json_loads_partial_mission_text:
  "json_loads (clean_response partial_mission_text) =
     Some (JObj [(ustr ''title'', JStr (ustr ''Operation Dawn''))])"
  by (simp add: partial_mission_text_def clean_eval json_eval)

lemma json_loads_empty_object: \<open>json_loads (clean_response (ustr ''{}'')) = Some (JObj [])\<close>
  by (simp add: clean_eval json_eval)

section \<open>One attempt of generate\_mission and of validate\_command\<close>

lemma get_next_topic_eq:
  "get_next_topic self =
     (Returned (topics_of_level (mg_level self) ! nat (mg_last_topic_index (snd (get_next_topic self)))),
      snd (get_next_topic self))"
proof -
  let ?n = "int (length (topics_of_level (mg_level self)))"
  have "0 < ?n"
    by (simp add: length_topics_of_level)
  then have "0 \<le> (mg_last_topic_index self + 1) mod ?n \<and> (mg_last_topic_index self + 1) mod ?n < ?n"
    by simp
  then show ?thesis
    by (simp add: get_next_topic_def Let_def py_index_def)
qed

lemma generate_mission_parsed:
  assumes "mg_model self = Some m" "answers m (calls m) = Reply text"
    and "json_loads (clean_response text) = Some v"
  shows "generate_mission self retry =
           (Returned v, (snd (get_next_topic self))\<lparr>mg_model := Some (m\<lparr>calls := calls m + 1\<rparr>)\<rparr>)"
  using assms
  by (subst generate_mission.simps, subst get_next_topic_eq) (simp add: generate_content_def)


lemma validate_command_parsed:
  assumes "cv_model self = Some m" "answers m (calls m) = Reply text"
    and "truthy current_mission" "subscripts current_mission MISSION_KEYS = Returned vals"
    and "json_loads (clean_response text) = Some v"
  shows "validate_command self command current_mission retry =
           (Returned v, self\<lparr>cv_model := Some (m\<lparr>calls := calls m + 1\<rparr>)\<rparr>)"
  using assms
  by (subst validate_command.simps) (simp add: generate_content_def)


lemma get_next_topic_model:
  "snd (get_next_topic (self\<lparr>mg_model := x\<rparr>)) = (snd (get_next_topic self))\<lparr>mg_model := x\<rparr>"
  by (simp add: get_next_topic_def Let_def)

lemma mg_model_next_topic_times: "mg_model (next_topic_times k self) = mg_model self"
  by (induction k arbitrary: self) (simp_all add: get_next_topic_def Let_def)

lemma next_topic_times_model:
  "next_topic_times k (self\<lparr>mg_model := x\<rparr>) = (next_topic_times k self)\<lparr>mg_model := x\<rparr>"
  by (induction k arbitrary: self) (simp_all add: get_next_topic_model)





lemma get_next_topic_first:
  "snd (get_next_topic \<lparr>mg_model = x, mg_level = 1, mg_last_topic_index = - 1\<rparr>)
     = \<lparr>mg_model = x, mg_level = 1, mg_last_topic_index = 0\<rparr>"
  by (simp add: get_next_topic_def Let_def length_topics_of_level)







section \<open>Parsing a response\<close>

text \<open>
  Claim C1. A response text that is a JSON object (a text from \<open>{\<close> to \<open>}\<close> that
  \<open>json.loads\<close> reads as an object) with exactly the mission keys, or exactly the
  validation keys, with or without a leading \<open>```json\<close> marker and a trailing \<open>```\<close>
  marker and with any whitespace around the markers and the object, is cleaned to the
  object's text and parsed: \<open>generate_mission\<close> and \<open>validate_command\<close> return the
  parsed record after one call of the model, without a retry.
\<close>

theorem fenced_json_object_parses:
  assumes ws: "\<forall>c\<in>set (w1 @ w2 @ w3 @ w4). is_space c"
    and body: "body \<noteq> []" "hd body = 123" "last body = 125"
    and parsed: "json_loads body = Some (JObj kvs)"
    and shape: "response_text = w1 @ (if lead then ustr ''```json'' @ w2 else []) @ body @
                 (if trail then w3 @ ustr ''```'' else []) @ w4"
  shows "clean_response response_text = body \<and>
    (set (map fst kvs) = set MISSION_KEYS \<and> mg_model gen = Some m \<and>
       answers m (calls m) = Reply response_text \<longrightarrow>
     generate_mission gen 0 =
       (Returned (JObj kvs),
        (snd (get_next_topic gen))\<lparr>mg_model := Some (m\<lparr>calls := calls m + 1\<rparr>)\<rparr>)) \<and>
    (set (map fst kvs) = set VALIDATION_KEYS \<and> cv_model val = Some m \<and>
       answers m (calls m) = Reply response_text \<and> truthy current_mission \<and>
       subscripts current_mission MISSION_KEYS = Returned prompt_values \<longrightarrow>
     validate_command val command current_mission 0 =
       (Returned (JObj kvs), val\<lparr>cv_model := Some (m\<lparr>calls := calls m + 1\<rparr>)\<rparr>))"
proof -
  have clean: "clean_response response_text = body"
    unfolding shape using ws body by (rule clean_response_fenced)
  then have loads: "json_loads (clean_response response_text) = Some (JObj kvs)"
    using parsed by simp
  show ?thesis
    using clean loads by (simp add: generate_mission_parsed validate_command_parsed)
qed

theorem fenced_json_object_parses_witness:
  "generate_mission
     \<lparr>mg_model = Some \<lparr>answers = always (ustr ''```json'' @ [10] @ example_mission_text @ [10] @ ustr ''```''), calls = 0\<rparr>,
      mg_level = 1, mg_last_topic_index = - 1\<rparr> 0
   = (Returned example_mission,
      \<lparr>mg_model = Some \<lparr>answers = always (ustr ''```json'' @ [10] @ example_mission_text @ [10] @ ustr ''```''), calls = 1\<rparr>,
       mg_level = 1, mg_last_topic_index = 0\<rparr>) \<and>
   validate_command \<lparr>cv_model = Some \<lparr>answers = always ([32] @ example_validation_text @ [10] @ ustr ''```''), calls = 0\<rparr>\<rparr>
     (ustr ''nmap -sn 10.0.0.5'') example_mission 0
   = (Returned example_validation,
      \<lparr>cv_model = Some \<lparr>answers = always ([32] @ example_validation_text @ [10] @ ustr ''```''), calls = 1\<rparr>\<rparr>)"
proof -
  let ?mt = "ustr ''```json'' @ [10] @ example_mission_text @ [10] @ ustr ''```''"
  let ?vt = "[32] @ example_validation_text @ [10] @ ustr ''```''"
  let ?m = "\<lparr>answers = always ?mt, calls = 0\<rparr>"
  let ?v = "\<lparr>answers = always ?vt, calls = 0\<rparr>"
  let ?gen = "\<lparr>mg_model = Some ?m, mg_level = 1, mg_last_topic_index = - 1\<rparr>"
  let ?val = "\<lparr>cv_model = Some ?v\<rparr>"
  obtain vs where vs: "subscripts example_mission MISSION_KEYS = Returned vs"
    using example_mission_prompt(2) by blast
  have sp: "\<forall>c\<in>set ([] @ [10] @ [10] @ []). is_space c" "\<forall>c\<in>set ([32] @ [] @ [10] @ []). is_space c"
    by (simp_all add: is_space_def)
  have g: "generate_mission ?gen 0 =
      (Returned example_mission, (snd (get_next_topic ?gen))\<lparr>mg_model := Some (?m\<lparr>calls := calls ?m + 1\<rparr>)\<rparr>)"
    using fenced_json_object_parses [where ?w1.0 = "[]" and ?w2.0 = "[10]" and ?w3.0 = "[10]" and ?w4.0 = "[]"
        and body = example_mission_text and lead = True and trail = True and response_text = ?mt
        and kvs = "case example_mission of JObj kvs \<Rightarrow> kvs" and gen = ?gen and m = ?m,
        OF sp(1) example_mission_text_ends]
      json_loads_example_mission
    by (simp add: example_mission_def MISSION_KEYS_def always_def)
  have v: "validate_command ?val (ustr ''nmap -sn 10.0.0.5'') example_mission 0 =
      (Returned example_validation, ?val\<lparr>cv_model := Some (?v\<lparr>calls := calls ?v + 1\<rparr>)\<rparr>)"
    using fenced_json_object_parses [where ?w1.0 = "[32]" and ?w2.0 = "[]" and ?w3.0 = "[10]" and ?w4.0 = "[]"
        and body = example_validation_text and lead = False and trail = True and response_text = ?vt
        and kvs = "case example_validation of JObj kvs \<Rightarrow> kvs" and val = ?val and m = ?v
        and current_mission = example_mission and prompt_values = vs
        and command = "ustr ''nmap -sn 10.0.0.5''",
        OF sp(2) example_validation_text_ends]
      json_loads_example_validation vs example_mission_prompt(1)
    by (simp add: example_validation_def VALIDATION_KEYS_def always_def)
  show ?thesis
    using g v by (simp add: get_next_topic_first)
qed

section \<open>A response that does not parse\<close>





section \<open>A response without the required keys\<close>

text \<open>
  Claim C3, as the code has it. A response that, after the cleaning, is a valid JSON
  object without one or more of the required keys is parsed and returned as it is, after
  one call of the model and without a retry: neither \<open>generate_mission\<close> nor
  \<open>validate_command\<close> looks at the keys of what \<open>json.loads\<close> returns.
\<close>

theorem missing_keys_not_checked:
  "(mg_model gen = Some m \<and> answers m (calls m) = Reply response_text \<and>
    json_loads (clean_response response_text) = Some (JObj kvs) \<and>
    \<not> set MISSION_KEYS \<subseteq> set (map fst kvs) \<longrightarrow>
    generate_mission gen 0 =
      (Returned (JObj kvs),
       (snd (get_next_topic gen))\<lparr>mg_model := Some (m\<lparr>calls := calls m + 1\<rparr>)\<rparr>)) \<and>
   (cv_model val = Some m \<and> answers m (calls m) = Reply response_text \<and>
    truthy current_mission \<and>
    subscripts current_mission MISSION_KEYS = Returned prompt_values \<and>
    json_loads (clean_response response_text) = Some (JObj kvs) \<and>
    \<not> set VALIDATION_KEYS \<subseteq> set (map fst kvs) \<longrightarrow>
    validate_command val command current_mission 0 =
      (Returned (JObj kvs), val\<lparr>cv_model := Some (m\<lparr>calls := calls m + 1\<rparr>)\<rparr>))"
  by (simp add: generate_mission_parsed validate_command_parsed)

theorem missing_keys_not_checked_witness:
  \<open>generate_mission
     \<lparr>mg_model = Some \<lparr>answers = always partial_mission_text, calls = 0\<rparr>,
      mg_level = 1, mg_last_topic_index = - 1\<rparr> 0
   = (Returned (JObj [(ustr ''title'', JStr (ustr ''Operation Dawn''))]),
      \<lparr>mg_model = Some \<lparr>answers = always partial_mission_text, calls = 1\<rparr>,
       mg_level = 1, mg_last_topic_index = 0\<rparr>) \<and>
   validate_command \<lparr>cv_model = Some \<lparr>answers = always (ustr ''{}''), calls = 0\<rparr>\<rparr>
     (ustr ''nmap -sn 10.0.0.5'') example_mission 0
   = (Returned (JObj []), \<lparr>cv_model = Some \<lparr>answers = always (ustr ''{}''), calls = 1\<rparr>\<rparr>)\<close>
proof -
  let ?mg = "\<lparr>answers = always partial_mission_text, calls = 0\<rparr>"
  let ?mv = \<open>\<lparr>answers = always (ustr ''{}''), calls = 0\<rparr>\<close>
  let ?gen = "\<lparr>mg_model = Some ?mg, mg_level = 1, mg_last_topic_index = - 1\<rparr>"
  let ?val = "\<lparr>cv_model = Some ?mv\<rparr>"
  obtain vs where vs: "subscripts example_mission MISSION_KEYS = Returned vs"
    using example_mission_prompt(2) by blast
  have g: "generate_mission ?gen 0 =
      (Returned (JObj [(ustr ''title'', JStr (ustr ''Operation Dawn''))]),
       (snd (get_next_topic ?gen))\<lparr>mg_model := Some (?mg\<lparr>calls := calls ?mg + 1\<rparr>)\<rparr>)"
    using missing_keys_not_checked [where gen = ?gen and m = ?mg
        and response_text = partial_mission_text
        and kvs = "[(ustr ''title'', JStr (ustr ''Operation Dawn''))]"]
      json_loads_partial_mission_text
    by (simp add: always_def MISSION_KEYS_def ustr_def)
  have v: "validate_command ?val (ustr ''nmap -sn 10.0.0.5'') example_mission 0 =
      (Returned (JObj []), ?val\<lparr>cv_model := Some (?mv\<lparr>calls := calls ?mv + 1\<rparr>)\<rparr>)"
    using missing_keys_not_checked [where val = ?val and m = ?mv
        and response_text = \<open>ustr ''{}''\<close> and kvs = "[]"
        and current_mission = example_mission and prompt_values = vs
        and command = "ustr ''nmap -sn 10.0.0.5''"]
      json_loads_empty_object vs example_mission_prompt(1)
    by (simp add: always_def VALIDATION_KEYS_def)
  show ?thesis
    unfolding g v by (simp add: get_next_topic_first)
qed

text \<open>
  The claim says such a response fails to parse and is retried. A response with the
  title alone is returned by \<open>generate_mission\<close> as the mission, after one call; it has
  no \<open>description\<close>.
\<close>

theorem partial_mission_returned:
  "map_of [(ustr ''title'', JStr (ustr ''Operation Dawn''))] (ustr ''description'') = None \<and>
   generate_mission
     \<lparr>mg_model = Some \<lparr>answers = always partial_mission_text, calls = 0\<rparr>,
      mg_level = 1, mg_last_topic_index = - 1\<rparr> 0
   = (Returned (JObj [(ustr ''title'', JStr (ustr ''Operation Dawn''))]),
      \<lparr>mg_model = Some \<lparr>answers = always partial_mission_text, calls = 1\<rparr>,
       mg_level = 1, mg_last_topic_index = 0\<rparr>)"
proof -
  let ?mg = "\<lparr>answers = always partial_mission_text, calls = 0\<rparr>"
  let ?gen = "\<lparr>mg_model = Some ?mg, mg_level = 1, mg_last_topic_index = - 1\<rparr>"
  have "generate_mission ?gen 0 =
      (Returned (JObj [(ustr ''title'', JStr (ustr ''Operation Dawn''))]),
       (snd (get_next_topic ?gen))\<lparr>mg_model := Some (?mg\<lparr>calls := calls ?mg + 1\<rparr>)\<rparr>)"
    using json_loads_partial_mission_text
    by (intro generate_mission_parsed) (simp_all add: always_def)
  then show ?thesis
    by (simp add: get_next_topic_first ustr_def)
qed


section \<open>Writing and reading an integer\<close>

lemma digits_of_nonempty: "digits_of n \<noteq> []"
  by (subst digits_of.simps) simp

lemma digits_of_digits: "c \<in> set (digits_of n) \<Longrightarrow> is_digit c"
proof (induction n arbitrary: c rule: digits_of.induct)
  case (1 n)
  show ?case
  proof (cases "n < 10")
    case True
    with "1.prems" show ?thesis
      by (subst (asm) digits_of.simps) (simp add: is_digit_def)
  next
    case False
    from "1.prems" have "c \<in> set (digits_of (n div 10)) \<or> c = 48 + n mod 10"
      using False by (subst (asm) digits_of.simps) auto
    then show ?thesis
      using "1.IH" [OF False] by (auto simp add: is_digit_def)
  qed
qed

lemma hd_digits_of: "0 < n \<Longrightarrow> hd (digits_of n) \<noteq> 48"
proof (induction n rule: digits_of.induct)
  case (1 n)
  show ?case
  proof (cases "n < 10")
    case True
    with "1.prems" show ?thesis
      by (subst digits_of.simps) simp
  next
    case False
    then have "0 < n div 10"
      by simp
    then have "hd (digits_of (n div 10)) \<noteq> 48"
      using "1.IH" [OF False] by simp
    then show ?thesis
      using False by (subst digits_of.simps) (simp add: hd_append digits_of_nonempty)
  qed
qed

lemma digits_of_0: "digits_of 0 = [48]"
  by (subst digits_of.simps) simp

lemma digits_value_snoc: "digits_value (ds @ [d]) = 10 * digits_value ds + (d - 48)"
  by (simp add: digits_value_def)

lemma digits_value_digits_of: "digits_value (digits_of n) = n"
proof (induction n rule: digits_of.induct)
  case (1 n)
  show ?case
  proof (cases "n < 10")
    case True
    then show ?thesis
      by (subst digits_of.simps) (simp add: digits_value_def)
  next
    case False
    then show ?thesis
      using "1.IH" [OF False] by (subst digits_of.simps) (simp add: digits_value_snoc)
  qed
qed


lemma py_str_int_nonempty: "py_str_int i \<noteq> []"
  by (simp add: py_str_int_def digits_of_nonempty)

lemma is_digit_atom_char: "is_digit c \<Longrightarrow> atom_char c"
  by (auto simp add: is_digit_def atom_char_def is_json_ws_def is_punct_def)

lemma py_str_int_atom_chars: "c \<in> set (py_str_int i) \<Longrightarrow> atom_char c"
  by (auto simp add: py_str_int_def is_digit_atom_char digits_of_digits split: if_splits)
     (simp add: atom_char_def is_json_ws_def is_punct_def)

lemma lex_atom_more:
  "\<forall>c\<in>set a. atom_char c \<Longrightarrow> foldl lex_step (toks, Atom acc) a = (toks, Atom (rev a @ acc))"
  by (induction a arbitrary: acc) (simp_all add: atom_char_def)

lemma lex_atom_start:
  assumes "\<forall>c\<in>set a. atom_char c" "a \<noteq> []"
  shows "foldl lex_step (toks, Scan) a = (toks, Atom (rev a))"
proof (cases a)
  case Nil
  with assms show ?thesis by simp
next
  case (Cons c cs)
  with assms have "lex_step (toks, Scan) c = (toks, Atom [c])"
    by (simp add: atom_char_def)
  then show ?thesis
    using assms Cons lex_atom_more [of cs toks "[c]"] by simp
qed

lemma lex_py_str_int:
  "foldl lex_step (toks, Scan) (py_str_int i) = (toks, Atom (rev (py_str_int i)))"
  using lex_atom_start [of "py_str_int i" toks]
  by (simp add: py_str_int_atom_chars py_str_int_nonempty)

lemma hd_digits_of_digit: "is_digit (hd (digits_of n))"
  using digits_of_digits [of "hd (digits_of n)" n] digits_of_nonempty [of n] hd_in_set
  by blast

lemma takeWhile_digits_of: "takeWhile is_digit (digits_of n) = digits_of n"
  by (simp add: digits_of_digits)

lemma dropWhile_digits_of: "dropWhile is_digit (digits_of n) = []"
  by (simp add: digits_of_digits)

lemma digits_of_hd_ok: "hd (digits_of n) = 48 \<Longrightarrow> digits_of n = [48]"
  using hd_digits_of [of n] digits_of_0 by (cases "n = 0") auto

lemma digits_of_not_minus: "take (Suc 0) (digits_of n) \<noteq> [45]"
proof
  assume "take (Suc 0) (digits_of n) = [45]"
  then have "hd (digits_of n) = 45"
    by (cases "digits_of n") simp_all
  moreover have "is_digit (hd (digits_of n))"
    by (rule hd_digits_of_digit)
  ultimately show False
    by (simp add: is_digit_def)
qed

lemma number_value_digits_of: "number_value (digits_of n) = Some (JInt (int n))"
  using digits_of_hd_ok [of n]
  by (auto simp add: number_value_def Let_def takeWhile_digits_of dropWhile_digits_of
      digits_of_nonempty digits_of_not_minus digits_value_digits_of)

lemma number_value_minus_digits_of: "number_value (45 # digits_of n) = Some (JInt (- int n))"
  using digits_of_hd_ok [of n]
  by (auto simp add: number_value_def Let_def takeWhile_digits_of dropWhile_digits_of
      digits_of_nonempty digits_value_digits_of)

lemma number_value_py_str_int: "number_value (py_str_int i) = Some (JInt i)"
  by (simp add: py_str_int_def number_value_digits_of number_value_minus_digits_of)

lemma py_str_int_cases:
  obtains ds where "py_str_int i = ds" "ds \<noteq> []" "is_digit (hd ds)"
  | ds where "py_str_int i = 45 # ds" "ds \<noteq> []" "is_digit (hd ds)"
proof (cases "i < 0")
  case True
  have "is_digit (hd (digits_of (nat (- i))))"
    by (rule hd_digits_of_digit)
  then show ?thesis
    using True that(2) by (simp add: py_str_int_def digits_of_nonempty)
next
  case False
  have "is_digit (hd (digits_of (nat i)))"
    by (rule hd_digits_of_digit)
  then show ?thesis
    using False that(1) by (simp add: py_str_int_def digits_of_nonempty)
qed

lemma atom_value_py_str_int: "atom_value (py_str_int i) = Some (JInt i)"
proof -
  have "py_str_int i \<noteq> ustr ''true''" "py_str_int i \<noteq> ustr ''false''"
    "py_str_int i \<noteq> ustr ''null''" "py_str_int i \<noteq> ustr ''NaN''"
    "py_str_int i \<noteq> ustr ''Infinity''" "py_str_int i \<noteq> ustr ''-Infinity''"
    by (rule py_str_int_cases [of i]; auto simp add: ustr_def is_digit_def)+
  then show ?thesis
    by (simp add: atom_value_def number_value_py_str_int)
qed

section \<open>Saving and loading the progress\<close>

lemma lex_json_dump_progress:
  "lex (json_dump_progress data) =
     Some [TPunct 123,
           TString (ustr ''xp''), TPunct 58, TAtom (py_str_int (xp data)), TPunct 44,
           TString (ustr ''level''), TPunct 58, TAtom (py_str_int (level data)), TPunct 44,
           TString (ustr ''last_topic_index''), TPunct 58,
           TAtom (py_str_int (last_topic_index data)), TPunct 44,
           TString (ustr ''missions_completed''), TPunct 58,
           TAtom (py_str_int (missions_completed data)),
           TPunct 125]"
  by (simp add: lex_def json_dump_progress_def lex_py_str_int ustr_def is_json_ws_def
      is_punct_def)

lemma json_loads_json_dump_progress:
  "json_loads (json_dump_progress data) =
     Some (JObj [(ustr ''xp'', JInt (xp data)),
                 (ustr ''level'', JInt (level data)),
                 (ustr ''last_topic_index'', JInt (last_topic_index data)),
                 (ustr ''missions_completed'', JInt (missions_completed data))])"
  by (simp add: json_loads_def lex_json_dump_progress parse_def atom_value_py_str_int ustr_def)

text \<open>
  Claim C7. For every progress record \<open>data\<close> with the four fields, \<open>save_progress data\<close>
  followed by \<open>load_progress\<close> returns a record equal to \<open>data\<close>, whatever the manager held
  before, provided the write succeeded (the file could be opened) and the file was not
  changed in between.
\<close>

theorem save_load_round_trip:
  "f \<noteq> Denied \<Longrightarrow> load_progress (save_progress data f) self = Returned data"
  by (cases f)
     (simp_all add: load_progress_def save_progress_def json_loads_json_dump_progress
       dict_get_def ustr_def)


theorem save_load_round_trip_witness:
  "load_progress
     (save_progress \<lparr>xp = 350, level = 2, last_topic_index = - 1, missions_completed = 4\<rparr> Absent)
     ProgressManager_init
   = Returned \<lparr>xp = 350, level = 2, last_topic_index = - 1, missions_completed = 4\<rparr> \<and>
   save_progress \<lparr>xp = 350, level = 2, last_topic_index = - 1, missions_completed = 4\<rparr> Absent
     \<noteq> Denied"
  using save_load_round_trip
    [of Absent "\<lparr>xp = 350, level = 2, last_topic_index = - 1, missions_completed = 4\<rparr>"
      ProgressManager_init]
  by (simp add: save_progress_def)

section \<open>Loading from a damaged file\<close>

text \<open>
  Claim C8. The claim holds for the cases it lists: with the file absent, unreadable or
  malformed, \<open>load_progress\<close> on a fresh manager returns the default record, and from an
  object it takes each missing field's default (\<open>load_progress_defaults\<close>,
  \<open>load_progress_missing_fields\<close>). But \<open>load_progress\<close> is not total: a file that holds a
  JSON document other than an object, such as \<open>[]\<close>, makes \<open>data.get\<close> raise
  \<open>AttributeError\<close>, which the \<open>except\<close> clause does not catch.
\<close>

theorem load_progress_not_an_object:
  \<open>json_loads (ustr ''[]'') = Some (JArr []) \<and>
   load_progress (Content (ustr ''[]'')) ProgressManager_init = Raised AttributeError\<close>
proof -
  have \<open>json_loads (ustr ''[]'') = Some (JArr [])\<close>
    by (simp add: json_eval)
  then show ?thesis
    by (simp add: load_progress_def)
qed

lemma load_progress_defaults:
  assumes "f = Absent \<or> f = Denied \<or> (\<exists>t. f = Content t \<and> json_loads t = None)"
  shows "load_progress f ProgressManager_init =
           Returned \<lparr>xp = 0, level = 1, last_topic_index = - 1, missions_completed = 0\<rparr>"
  using assms by (auto simp add: load_progress_def ProgressManager_init_def)

lemma load_progress_missing_fields:
  assumes "json_loads t = Some (JObj kvs)"
    and "\<forall>k\<in>{ustr ''xp'', ustr ''level'', ustr ''last_topic_index'', ustr ''missions_completed''}.
           map_of kvs k = None \<or> (\<exists>i. map_of kvs k = Some (JInt i))"
  shows "load_progress (Content t) self =
           Returned \<lparr>xp = int_field kvs (ustr ''xp'') 0,
                     level = int_field kvs (ustr ''level'') 1,
                     last_topic_index = int_field kvs (ustr ''last_topic_index'') (- 1),
                     missions_completed = int_field kvs (ustr ''missions_completed'') 0\<rparr>"
proof -
  have "as_int (dict_get kvs k (JInt d)) = Some (int_field kvs k d)"
    if "map_of kvs k = None \<or> (\<exists>i. map_of kvs k = Some (JInt i))" for k d
    using that by (auto simp add: dict_get_def int_field_def)
  then show ?thesis
    using assms by (simp add: load_progress_def)
qed

lemma load_progress_not_object:
  assumes "json_loads t = Some v" "\<forall>kvs. v \<noteq> JObj kvs"
  shows "load_progress (Content t) self = Raised AttributeError"
  using assms by (cases v) (simp_all add: load_progress_def)

section \<open>What the methods of the application leave unchanged\<close>

lemma add_terminal_line_more:
  "add_terminal_line line color self =
     self\<lparr>terminal_output := map_option (\<lambda>lines. lines @ [(line, color)]) (terminal_output self)\<rparr>"
  by (cases "terminal_output self") (simp_all add: add_terminal_line_def)

lemma add_terminal_line_frame [simp]:
  "xp (add_terminal_line line color self) = xp self"
  "level (add_terminal_line line color self) = level self"
  "last_topic_index (add_terminal_line line color self) = last_topic_index self"
  "missions_completed (add_terminal_line line color self) = missions_completed self"
  "progress_manager (add_terminal_line line color self) = progress_manager self"
  "progress_file (add_terminal_line line color self) = progress_file self"
  "hints_used (add_terminal_line line color self) = hints_used self"
  "mission_completed (add_terminal_line line color self) = mission_completed self"
  "xp_text (add_terminal_line line color self) = xp_text self"
  "level_text (add_terminal_line line color self) = level_text self"
  "explain_btn (add_terminal_line line color self) = explain_btn self"
  "snack_bar (add_terminal_line line color self) = snack_bar self"
  by (simp_all add: add_terminal_line_more)

lemma add_terminal_lines_frame [simp]:
  "xp (foldl (\<lambda>s line. add_terminal_line line color s) self lines) = xp self"
  "level (foldl (\<lambda>s line. add_terminal_line line color s) self lines) = level self"
  "last_topic_index (foldl (\<lambda>s line. add_terminal_line line color s) self lines) = last_topic_index self"
  "missions_completed (foldl (\<lambda>s line. add_terminal_line line color s) self lines) = missions_completed self"
  "progress_manager (foldl (\<lambda>s line. add_terminal_line line color s) self lines) = progress_manager self"
  "progress_file (foldl (\<lambda>s line. add_terminal_line line color s) self lines) = progress_file self"
  "hints_used (foldl (\<lambda>s line. add_terminal_line line color s) self lines) = hints_used self"
  "mission_completed (foldl (\<lambda>s line. add_terminal_line line color s) self lines) = mission_completed self"
  "xp_text (foldl (\<lambda>s line. add_terminal_line line color s) self lines) = xp_text self"
  "level_text (foldl (\<lambda>s line. add_terminal_line line color s) self lines) = level_text self"
  by (induction lines arbitrary: self; simp)+

lemma set_explain_visible_more:
  "set_explain_visible visible self =
     self\<lparr>explain_btn := map_option (\<lambda>_. visible) (explain_btn self)\<rparr>"
  by (cases "explain_btn self") (simp_all add: set_explain_visible_def)

lemma show_level_up_notification_frame [simp]:
  "xp (show_level_up_notification old new self) = xp self"
  "level (show_level_up_notification old new self) = level self"
  "last_topic_index (show_level_up_notification old new self) = last_topic_index self"
  "missions_completed (show_level_up_notification old new self) = missions_completed self"
  "progress_manager (show_level_up_notification old new self) = progress_manager self"
  "progress_file (show_level_up_notification old new self) = progress_file self"
  "hints_used (show_level_up_notification old new self) = hints_used self"
  "mission_completed (show_level_up_notification old new self) = mission_completed self"
  by (simp_all add: show_level_up_notification_def Let_def)

lemma app_save_progress_xp [simp]: "xp (app_save_progress self) = xp self"
  by (simp add: app_save_progress_def Let_def)

lemma award_xp_xp:
  "xp (snd (award_xp self)) = xp self + xp_gained_for (hints_used self)"
  by (simp add: award_xp_def Let_def split: option.split)

lemma award_xp_level:
  "level (snd (award_xp self)) = calculate_level (xp self + xp_gained_for (hints_used self))"
  by (simp add: award_xp_def Let_def split: option.split)

lemma award_xp_total: "fst (award_xp self) = xp (snd (award_xp self))"
  by (simp add: award_xp_def Let_def)

lemma award_xp_hints_used: "hints_used (snd (award_xp self)) = hints_used self"
  by (simp add: award_xp_def Let_def split: option.split)

lemma app_save_progress_hints_used: "hints_used (app_save_progress self) = hints_used self"
  by (simp add: app_save_progress_def Let_def)

lemma xp_gained_for_cases:
  "xp_gained_for h = (if h = 0 then 100 else if h = 1 then 50 else 25)"
  by (simp add: xp_gained_for_def XP_FIRST_TRY_def XP_ONE_HINT_def XP_TWO_HINTS_def)

lemma xp_gained_for_pos: "0 < xp_gained_for h"
  by (simp add: xp_gained_for_cases)

section \<open>Awarding XP\<close>

text \<open>
  Claim C9. \<open>award_xp\<close> adds an amount that only depends on the hints used: 100 with no
  hint, 50 with one, 25 with two or more; it then sets the level to the level of the new
  total by the threshold table, and returns the new total.
\<close>

theorem award_xp_amount:
  "(hints_used self = 0 \<longrightarrow> xp (snd (award_xp self)) = xp self + 100) \<and>
   (hints_used self = 1 \<longrightarrow> xp (snd (award_xp self)) = xp self + 50) \<and>
   (hints_used self \<ge> 2 \<longrightarrow> xp (snd (award_xp self)) = xp self + 25) \<and>
   (hints_used self = hints_used other \<longrightarrow>
      xp (snd (award_xp self)) - xp self = xp (snd (award_xp other)) - xp other) \<and>
   level (snd (award_xp self)) = calculate_level (xp (snd (award_xp self))) \<and>
   fst (award_xp self) = xp (snd (award_xp self))"
  by (simp add: award_xp_xp award_xp_level award_xp_total xp_gained_for_cases)

theorem award_xp_amount_witness:
  "xp (snd (award_xp example_app)) = 330 \<and> level (snd (award_xp example_app)) = 2 \<and>
   xp (snd (award_xp (example_app\<lparr>hints_used := 0\<rparr>))) = 380 \<and>
   xp (snd (award_xp (example_app\<lparr>hints_used := 5\<rparr>))) = 305"
proof -
  have 1: "xp (snd (award_xp example_app)) = 330"
    using award_xp_amount [of example_app example_app] by (simp add: example_app_def)
  have 2: "level (snd (award_xp example_app)) = 2"
    using award_xp_amount [of example_app example_app] unfolding 1
    by (simp add: calculate_level_cases)
  have 3: "xp (snd (award_xp (example_app\<lparr>hints_used := 0\<rparr>))) = 380"
    using award_xp_amount [of "example_app\<lparr>hints_used := 0\<rparr>" example_app]
    by (simp add: example_app_def)
  have 4: "xp (snd (award_xp (example_app\<lparr>hints_used := 5\<rparr>))) = 305"
    using award_xp_amount [of "example_app\<lparr>hints_used := 5\<rparr>" example_app]
    by (simp add: example_app_def)
  from 1 2 3 4 show ?thesis
    by simp
qed

section \<open>A result that is not correct\<close>

lemma process_validation_result_incorrect:
  assumes "map_of kvs (ustr ''correct'') = None \<or> map_of kvs (ustr ''correct'') = Some (JBool False)"
  shows "process_validation_result (JObj kvs) command self =
     (case py_format (dict_get kvs (ustr ''feedback'') (JStr (ustr ''Incorrect.''))) of
        None \<Rightarrow> (Untyped, add_terminal_line [] COLOR_TEXT_WHITE self)
      | Some feedback \<Rightarrow>
          (Returned (),
           set_explain_visible True
             (add_terminal_line (ustr ''[!] Scan failed. Try again or get a hint.'')
                COLOR_TEXT_YELLOW
                (add_terminal_line ([91, 10007, 93, 32] @ feedback) COLOR_ERROR
                   (add_terminal_line [] COLOR_TEXT_WHITE self)))))"
proof -
  have "\<not> truthy (dict_get kvs (ustr ''correct'') (JBool False))"
    using assms by (auto simp add: dict_get_def)
  then show ?thesis
    by (simp add: process_validation_result_def Let_def split: option.split)
qed

text \<open>
  Claim C10. For a validation result whose \<open>correct\<close> field is \<open>False\<close> or absent,
  \<open>process_validation_result\<close> leaves \<open>xp\<close>, \<open>level\<close>, \<open>missions_completed\<close> and the
  \<open>mission_completed\<close> flag as they were and does not write the progress file: it adds
  the three feedback lines to the terminal and makes the explain button visible, and
  changes nothing else.
\<close>

theorem incorrect_result_frame:
  assumes "map_of kvs (ustr ''correct'') = None \<or> map_of kvs (ustr ''correct'') = Some (JBool False)"
  shows "xp (snd (process_validation_result (JObj kvs) command self)) = xp self \<and>
    level (snd (process_validation_result (JObj kvs) command self)) = level self \<and>
    missions_completed (snd (process_validation_result (JObj kvs) command self))
      = missions_completed self \<and>
    mission_completed (snd (process_validation_result (JObj kvs) command self))
      = mission_completed self \<and>
    progress_file (snd (process_validation_result (JObj kvs) command self))
      = progress_file self \<and>
    (py_format (dict_get kvs (ustr ''feedback'') (JStr (ustr ''Incorrect.''))) = Some feedback \<longrightarrow>
     process_validation_result (JObj kvs) command self =
       (Returned (),
        self\<lparr>terminal_output :=
               map_option
                 (\<lambda>lines. lines @
                    [([], COLOR_TEXT_WHITE),
                     ([91, 10007, 93, 32] @ feedback, COLOR_ERROR),
                     (ustr ''[!] Scan failed. Try again or get a hint.'', COLOR_TEXT_YELLOW)])
                 (terminal_output self),
             explain_btn := map_option (\<lambda>_. True) (explain_btn self)\<rparr>))"
  unfolding process_validation_result_incorrect [OF assms]
  by (cases "terminal_output self")
     (simp_all add: add_terminal_line_more set_explain_visible_more split: option.split)

theorem incorrect_result_frame_witness:
  "process_validation_result example_validation (ustr ''nmap 10.0.0.5'') example_app =
     (Returned (),
      example_app
        \<lparr>terminal_output :=
           Some [([], COLOR_TEXT_WHITE),
                 ([91, 10007, 93, 32] @ ustr ''Use -sn'', COLOR_ERROR),
                 (ustr ''[!] Scan failed. Try again or get a hint.'', COLOR_TEXT_YELLOW)],
         explain_btn := Some True\<rparr>) \<and>
   xp (snd (process_validation_result example_validation (ustr ''nmap 10.0.0.5'') example_app))
     = 280"
proof -
  let ?kvs = "[(ustr ''correct'', JBool False), (ustr ''feedback'', JStr (ustr ''Use -sn'')),
      (ustr ''simulated_output'', JStr [])]"
  have c: "map_of ?kvs (ustr ''correct'') = None \<or> map_of ?kvs (ustr ''correct'') = Some (JBool False)"
    by simp
  have f: "py_format (dict_get ?kvs (ustr ''feedback'') (JStr (ustr ''Incorrect.''))) = Some (ustr ''Use -sn'')"
    by (simp add: dict_get_def ustr_def)
  show ?thesis
    using incorrect_result_frame [OF c, of "ustr ''nmap 10.0.0.5''" example_app "ustr ''Use -sn''"] f
    by (simp add: example_validation_def) (simp add: example_app_def)
qed

section \<open>XP never decreases\<close>

lemma process_validation_result_xp:
  "xp self \<le> xp (snd (process_validation_result result command self))"
proof (cases result)
  case (JObj kvs)
  show ?thesis
  proof (cases "truthy (dict_get kvs (ustr ''correct'') (JBool False))")
    case True
    have "0 \<le> xp_gained_for h" for h
      using xp_gained_for_pos [of h] by simp
    then show ?thesis
      using JObj True
      by (simp add: process_validation_result_def Let_def split_beta award_xp_xp
          set_explain_visible_more split: option.split json.split)
  next
    case False
    then show ?thesis
      using JObj
      by (simp add: process_validation_result_def Let_def set_explain_visible_more
          split: option.split)
  qed
qed (simp_all add: process_validation_result_def)


lemma perform_xp: "xp self \<le> xp (perform self op)"
proof (cases op)
  case AwardXp
  then show ?thesis
    using xp_gained_for_pos [of "hints_used self"] by (simp add: award_xp_xp)
next
  case SaveProgress
  then show ?thesis by simp
next
  case (ProcessValidationResult result command)
  then show ?thesis
    by (simp add: process_validation_result_xp)
qed

lemma run_xp: "xp self \<le> xp (foldl perform self ops)"
proof (induction ops arbitrary: self)
  case Nil
  show ?case by simp
next
  case (Cons op ops)
  have "xp self \<le> xp (perform self op)"
    by (rule perform_xp)
  also have "\<dots> \<le> xp (foldl perform (perform self op) ops)"
    by (rule Cons.IH)
  finally show ?case by simp
qed

lemma app_load_progress_xp:
  "load_progress (progress_file self) (progress_manager self) = Returned data \<Longrightarrow>
     app_load_progress self =
       (Returned (),
        self\<lparr>progress_manager := data, xp := xp data, level := level data,
             last_topic_index := last_topic_index data,
             missions_completed := missions_completed data\<rparr>)"
  by (simp add: app_load_progress_def)

text \<open>
  Claim C6, as the code has it. \<open>xp\<close> is assigned by \<open>load_progress\<close> and by \<open>award_xp\<close>.
  \<open>award_xp\<close> adds 100, 50 or 25, \<open>save_progress\<close> leaves \<open>xp\<close> as it is, and
  \<open>process_validation_result\<close> leaves it or calls \<open>award_xp\<close>; so along every run of
  these operations \<open>xp\<close> is at least every earlier value. \<open>load_progress\<close>, which the
  constructor calls once, sets \<open>xp\<close> to the stored value.
\<close>

theorem xp_monotone_after_load:
  "xp self \<le> xp (foldl perform self ops) \<and>
   xp (foldl perform self ops) \<le> xp (foldl perform self (ops @ more_ops)) \<and>
   xp self < xp (snd (award_xp self)) \<and>
   xp (snd (award_xp self)) - xp self \<in> {100, 50, 25} \<and>
   xp (app_save_progress self) = xp self \<and>
   xp self \<le> xp (snd (process_validation_result result command self)) \<and>
   (load_progress (progress_file self) (progress_manager self) = Returned data \<longrightarrow>
      xp (snd (app_load_progress self)) = xp data)"
  using xp_gained_for_pos [of "hints_used self"]
  by (simp add: run_xp award_xp_xp process_validation_result_xp app_load_progress_xp)
     (simp add: xp_gained_for_cases)

lemma json_loads_negative_progress_text:
  "json_loads negative_progress_text = Some (JObj [(ustr ''xp'', JInt (- 5))])"
  by (simp add: negative_progress_text_def json_eval)

lemma load_negative_progress:
  "load_progress (Content negative_progress_text) ProgressManager_init =
     Returned \<lparr>xp = - 5, level = 1, last_topic_index = - 1, missions_completed = 0\<rparr>"
  by (simp add: load_progress_def json_loads_negative_progress_text dict_get_def ustr_def)

theorem xp_monotone_after_load_witness:
  "xp (foldl perform (NmapDojoApp_init Absent)
         [ProcessValidationResult (JObj [(ustr ''correct'', JBool True)]) [], SaveProgress, AwardXp])
     = 200 \<and>
   xp (snd (app_load_progress (NmapDojoApp_init (Content negative_progress_text)))) = - 5"
proof -
  let ?a = "NmapDojoApp_init Absent"
  let ?ops = "[ProcessValidationResult (JObj [(ustr ''correct'', JBool True)]) [], SaveProgress, AwardXp]"
  let ?b = "NmapDojoApp_init (Content negative_progress_text)"
  have run: "xp (foldl perform ?a ?ops) = 200"
    by (simp add: process_validation_result_def dict_get_def ustr_def Let_def split_beta
        award_xp_xp set_explain_visible_more xp_gained_for_cases NmapDojoApp_init_def
        award_xp_hints_used app_save_progress_hints_used)
  have "load_progress (progress_file ?b) (progress_manager ?b) =
      Returned \<lparr>xp = - 5, level = 1, last_topic_index = - 1, missions_completed = 0\<rparr>"
    by (simp add: NmapDojoApp_init_def load_negative_progress)
  then have "xp (snd (app_load_progress ?b)) = - 5"
    using xp_monotone_after_load
      [of ?b "[]" "[]" JNull "[]"
        "\<lparr>xp = - 5, level = 1, last_topic_index = - 1, missions_completed = 0\<rparr>"]
    by simp
  with run show ?thesis
    by simp
qed

text \<open>
  The claim says that \<open>award_xp\<close> is the only operation that modifies \<open>xp\<close> and that no
  operation lowers it. With a progress file that stores \<open>-5\<close>, \<open>load_progress\<close> takes
  \<open>xp\<close> from the constructor's 0 to \<open>-5\<close>.
\<close>

theorem load_progress_lowers_xp:
  "xp (NmapDojoApp_init (Content negative_progress_text)) = 0 \<and>
   fst (app_load_progress (NmapDojoApp_init (Content negative_progress_text))) = Returned () \<and>
   xp (snd (app_load_progress (NmapDojoApp_init (Content negative_progress_text)))) = - 5"
  by (simp add: app_load_progress_def NmapDojoApp_init_def load_negative_progress)


end
